theory Spec2Isabelle
  imports Complex_Main
begin

section \<open>Host-language primitives\<close>

text \<open>
  The script \<^verbatim>\<open>src/scripts/robustness.js\<close> runs in a browser. The primitives it
  takes from the language and the DOM are modelled here, each as the function the
  platform specifies. Strings are byte lists (UTF-8); the three emoji of the script are
  written as their byte sequences.
\<close>

definition digit :: "nat \<Rightarrow> char" where
  "digit n = ''0123456789'' ! (n mod 10)"

text \<open>Template interpolation \<^verbatim>\<open>${n}\<close> of a non-negative integer: its decimal numeral.\<close>

fun string_of_nat :: "nat \<Rightarrow> string" where
  "string_of_nat n =
     (if n < 10 then [digit n] else string_of_nat (n div 10) @ [digit n])"

declare string_of_nat.simps [simp del]

definition string_of_int :: "int \<Rightarrow> string" where
  "string_of_int i =
     (if i < 0 then CHR ''-'' # string_of_nat (nat (- i)) else string_of_nat (nat i))"

text \<open>\<^verbatim>\<open>Array.prototype.join\<close>.\<close>

fun join :: "string \<Rightarrow> string list \<Rightarrow> string" where
  "join sep [] = []"
| "join sep [x] = x"
| "join sep (x # y # zs) = x @ sep @ join sep (y # zs)"

text \<open>
  \<^verbatim>\<open>Math.round\<close>: the nearest integer, a tie going to the larger one. The argument
  \<^verbatim>\<open>testDuration / 1000\<close> is taken as the exact quotient: for a difference of two
  epoch-millisecond clock readings the floating-point quotient lies within \<open>2\<^sup>-\<^sup>1\<^sup>0\<close>
  of it and a tie \<open>k + 1/2\<close> is represented exactly, so both round to the same integer.
\<close>

definition Math_round :: "real \<Rightarrow> int" where
  "Math_round x = \<lfloor>x + 1 / 2\<rfloor>"

text \<open>\<^verbatim>\<open>String.prototype.toLowerCase\<close> on the ASCII letters of a tag name.\<close>

definition lower_char :: "char \<Rightarrow> char" where
  "lower_char c =
     (if (65::nat) \<le> of_char c \<and> of_char c \<le> (90::nat) then char_of (of_char c + (32::nat)) else c)"

definition toLowerCase :: "string \<Rightarrow> string" where
  "toLowerCase s = map lower_char s"

text \<open>
  \<^verbatim>\<open>element.classList\<close>: the class attribute split at ASCII whitespace, each token kept
  once, in the order of its first occurrence.
\<close>

definition is_ascii_whitespace :: "char \<Rightarrow> bool" where
  "is_ascii_whitespace c = (c \<in> set [CHR 0x09, CHR 0x0A, CHR 0x0C, CHR 0x0D, CHR 0x20])"

fun tokens :: "string \<Rightarrow> string \<Rightarrow> string list" where
  "tokens cur [] = (if cur = [] then [] else [cur])"
| "tokens cur (c # cs) =
     (if is_ascii_whitespace c
      then (if cur = [] then tokens [] cs else cur # tokens [] cs)
      else tokens (cur @ [c]) cs)"

fun keep_first :: "string list \<Rightarrow> string list \<Rightarrow> string list" where
  "keep_first seen [] = []"
| "keep_first seen (x # xs) =
     (if x \<in> set seen then keep_first seen xs else x # keep_first (x # seen) xs)"

definition classList :: "string \<Rightarrow> string list" where
  "classList cn = keep_first [] (tokens [] cn)"

definition starts_with :: "string \<Rightarrow> string \<Rightarrow> bool" where
  "starts_with p s = (take (length p) s = p)"

definition refresh_emoji :: string where
  "refresh_emoji = [CHR 0xF0, CHR 0x9F, CHR 0x94, CHR 0x84]"

definition check_emoji :: string where
  "check_emoji = [CHR 0xE2, CHR 0x9C, CHR 0x85]"

definition target_emoji :: string where
  "target_emoji = [CHR 0xF0, CHR 0x9F, CHR 0x8E, CHR 0xAF]"


section \<open>Data model\<close>

text \<open>
  An event record is an open set of fields; every handler of the script writes numbers
  and strings only.
\<close>

datatype jsvalue = Num int | Str string

type_synonym payload = "(string \<times> jsvalue) list"

text \<open>
  \<^verbatim>\<open>this.testResults\<close> is a plain object used as a dictionary from event type to an
  array of records. It is kept as an association list in the order the keys were
  created; nothing below depends on the order in which keys are enumerated.
\<close>

type_synonym eventlog = "(string \<times> payload list) list"

text \<open>The elements the script looks up, with the properties it reads or writes.\<close>

record dynamic_button =
  el_id :: string
  innerHTML :: string
  backgroundColor :: string

record aria_button =
  role :: string
  aria_tagName :: string
  textContent :: string

text \<open>
  The content of \<^verbatim>\<open>#test-metrics\<close>: what the page shipped, or the three cards written by
  \<^verbatim>\<open>updateMetricsDisplay\<close>, kept as the three interpolated numbers (total events, event
  types, seconds).
\<close>

datatype metrics_html = Original | Cards nat nat int

text \<open>
  The nodes built by the stress test. A click listener is a closure over the loop
  indices; it is kept as data.
\<close>

datatype listener = StressTestClick nat nat

datatype node =
  Node (n_tagName: string) (n_className: string) (n_text: string)
       (n_onclick: "listener option") (n_children: "node list")

text \<open>
  The elements under the nested-element probe live in a store addressed by position;
  \<open>parent\<close> is \<^verbatim>\<open>parentElement\<close> (\<open>None\<close> for \<^verbatim>\<open>null\<close>).
\<close>

record element =
  tagName :: string
  elem_id :: string
  className :: string
  parent :: "nat option"
  position :: string

text \<open>Callbacks handed to \<^verbatim>\<open>setTimeout\<close>, with their delay in milliseconds.\<close>

datatype callback = ClearDynamicBackground | RevertAriaText | RemoveRipple nat

text \<open>
  The object handed to \<^verbatim>\<open>JSON.stringify\<close> by the exporter and the file offered for
  download. \<open>ISO_8601 t\<close> stands for the string \<^verbatim>\<open>toISOString\<close> yields for the instant
  \<open>t\<close> (epoch milliseconds).
\<close>

datatype iso8601 = ISO_8601 int

record export_results =
  x_testResults :: eventlog
  x_testDuration :: int
  x_timestamp :: iso8601
  x_totalEvents :: nat

record download =
  filename :: string
  content :: export_results

text \<open>
  The state: the three fields of \<^verbatim>\<open>RobustnessTestManager\<close> and the part of the page the
  script touches. The page is assumed to keep its designated elements apart: they are
  distinct, none lies inside another, and no other element carries the id
  \<^verbatim>\<open>dynamic-id-btn\<close> or an id starting with \<^verbatim>\<open>dynamic-btn-\<close>. \<open>dynamicButton\<close> and
  \<open>ariaButton\<close> are the elements the listeners were bound to (\<open>None\<close>: the lookup at
  load time found nothing). The counter is a natural number and clock readings are
  integers; the script's numbers represent both exactly, up to \<open>2\<^sup>5\<^sup>3\<close>.
\<close>

record state =
  dynamicIdCounter :: nat
  testResults :: eventlog
  startTime :: int
  dynamicButton :: "dynamic_button option"
  ariaButton :: "aria_button option"
  metricsContainer :: "metrics_html option"
  stressContainer :: "node list option"
  elements :: "element list"
  body :: nat
  nestedElements :: "nat list"
  timers :: "(nat \<times> callback) list"
  downloads :: "download list"

text \<open>
  A handler either returns or is left by an exception; the state reached so far stays
  in both cases.
\<close>

datatype error = TypeError

datatype outcome = Returned state | Threw error state

fun state_of :: "outcome \<Rightarrow> state" where
  "state_of (Returned s) = s"
| "state_of (Threw e s) = s"

fun and_then :: "outcome \<Rightarrow> (state \<Rightarrow> outcome) \<Rightarrow> outcome" where
  "and_then (Returned s) k = k s"
| "and_then (Threw e s) k = Threw e s"


section \<open>Event recorder and metrics renderer\<close>

text \<open>
  A property read \<^verbatim>\<open>this.testResults[eventType]\<close> finds an own array, or a member
  inherited from \<^verbatim>\<open>Object.prototype\<close> (a function or an object: truthy, and without
  \<^verbatim>\<open>push\<close>), or nothing.
\<close>

definition Object_prototype :: "string list" where
  "Object_prototype =
     [''constructor'', ''__defineGetter__'', ''__defineSetter__'', ''hasOwnProperty'',
      ''__lookupGetter__'', ''__lookupSetter__'', ''isPrototypeOf'',
      ''propertyIsEnumerable'', ''toString'', ''valueOf'', ''__proto__'',
      ''toLocaleString'']"

datatype property = Undefined | Inherited | Own "payload list"

definition get_property :: "eventlog \<Rightarrow> string \<Rightarrow> property" where
  "get_property tr k =
     (case map_of tr k of
        Some events \<Rightarrow> Own events
      | None \<Rightarrow> if k \<in> set Object_prototype then Inherited else Undefined)"

definition Object_keys :: "eventlog \<Rightarrow> string list" where
  "Object_keys tr = map fst tr"

definition Object_values :: "eventlog \<Rightarrow> payload list list" where
  "Object_values tr = map snd tr"

text \<open>\<^verbatim>\<open>this.testResults[eventType].push(data)\<close> on an own array.\<close>

fun push :: "string \<Rightarrow> payload \<Rightarrow> eventlog \<Rightarrow> eventlog" where
  "push k d [] = []"
| "push k d ((k', events) # tr) =
     (if k' = k then (k', events @ [d]) # tr else (k', events) # push k d tr)"

definition updateMetricsDisplay :: "int \<Rightarrow> state \<Rightarrow> state" where
  "updateMetricsDisplay now s =
     (case metricsContainer s of
        None \<Rightarrow> s
      | Some _ \<Rightarrow>
          let totalEvents =
                foldl (\<lambda>total events. total + length events) 0 (Object_values (testResults s));
              eventTypes = length (Object_keys (testResults s));
              testDuration = now - startTime s
          in s\<lparr>metricsContainer :=
                 Some (Cards totalEvents eventTypes (Math_round (of_int testDuration / 1000)))\<rparr>)"

text \<open>
  \<open>logEvent eventType data now\<close>; \<open>now\<close> is the clock reading taken by the renderer.
  The exception is the call of the missing \<^verbatim>\<open>push\<close> of an inherited member; nothing
  has been written at that point.
\<close>

definition logEvent :: "string \<Rightarrow> payload \<Rightarrow> int \<Rightarrow> state \<Rightarrow> outcome" where
  "logEvent eventType data now s =
     (let tr = (case get_property (testResults s) eventType of
                  Undefined \<Rightarrow> testResults s @ [(eventType, [])]
                | _ \<Rightarrow> testResults s)
      in case get_property tr eventType of
           Own events \<Rightarrow>
             Returned (updateMetricsDisplay now (s\<lparr>testResults := push eventType data tr\<rparr>))
         | _ \<Rightarrow> Threw TypeError (s\<lparr>testResults := tr\<rparr>))"


section \<open>DOM probe handlers\<close>

text \<open>
  Every handler takes the clock readings it makes as arguments, in the order it makes
  them: \<open>t\<close> is the reading stored in the record, \<open>now\<close> the one taken by the renderer.
\<close>

subsection \<open>Dynamic-id button\<close>

definition dynamicButton_click :: "int \<Rightarrow> int \<Rightarrow> state \<Rightarrow> outcome" where
  "dynamicButton_click t now s =
     (case dynamicButton s of
        None \<Rightarrow> Returned s
      | Some b \<Rightarrow>
          let oldId = el_id b;
              newId = ''dynamic-btn-'' @ string_of_nat (dynamicIdCounter s);
              s1 = s\<lparr>dynamicIdCounter := dynamicIdCounter s + 1,
                     dynamicButton := Some (b\<lparr>el_id := newId,
                       innerHTML := refresh_emoji @ '' Dynamic ID Button (ID: '' @ newId @ '')''\<rparr>)\<rparr>
          in and_then
               (logEvent ''dynamic-id-change''
                  [(''oldId'', Str oldId), (''newId'', Str newId), (''timestamp'', Num t)] now s1)
               (\<lambda>s2. Returned (s2\<lparr>
                  dynamicButton :=
                    map_option (\<lambda>b. b\<lparr>backgroundColor := ''#27ae60''\<rparr>) (dynamicButton s2),
                  timers := timers s2 @ [(500, ClearDynamicBackground)]\<rparr>)))"

subsection \<open>ARIA button\<close>

definition ariaButton_click :: "int \<Rightarrow> int \<Rightarrow> state \<Rightarrow> outcome" where
  "ariaButton_click t now s =
     (case ariaButton s of
        None \<Rightarrow> Returned s
      | Some a \<Rightarrow>
          and_then
            (logEvent ''aria-button-click''
               [(''role'', Str (role a)), (''tagName'', Str (aria_tagName a)),
                (''timestamp'', Num t)] now s)
            (\<lambda>s1. Returned (s1\<lparr>
               ariaButton :=
                 map_option (\<lambda>a. a\<lparr>textContent := check_emoji @ '' ARIA Button Clicked!''\<rparr>)
                   (ariaButton s1),
               timers := timers s1 @ [(2000, RevertAriaText)]\<rparr>)))"

text \<open>
  The keydown listener. The first component says whether \<^verbatim>\<open>preventDefault\<close> was called
  on the key event; \<^verbatim>\<open>ariaButton.click()\<close> dispatches a click, which runs the click
  listener before it returns.
\<close>

definition ariaButton_keydown :: "string \<Rightarrow> int \<Rightarrow> int \<Rightarrow> state \<Rightarrow> bool \<times> outcome" where
  "ariaButton_keydown key t now s =
     (case ariaButton s of
        None \<Rightarrow> (False, Returned s)
      | Some a \<Rightarrow>
          if key = ''Enter'' \<or> key = '' '' then (True, ariaButton_click t now s)
          else (False, Returned s))"

subsection \<open>Nested elements\<close>

text \<open>An address outside the store denotes no element.\<close>

definition parentElement :: "element list \<Rightarrow> nat \<Rightarrow> nat option" where
  "parentElement d a =
     (if a < length d then
        (case parent (d ! a) of
           None \<Rightarrow> None
         | Some p \<Rightarrow> if p < length d then Some p else None)
      else None)"

text \<open>
  The two walks up the ancestor chain are \<^verbatim>\<open>while\<close> loops over \<^verbatim>\<open>parentElement\<close>;
  on a store whose parent links form a cycle they would not end.
\<close>

partial_function (option) nestingLevel_loop ::
  "element list \<Rightarrow> nat \<Rightarrow> nat option \<Rightarrow> nat \<Rightarrow> nat option" where
  "nestingLevel_loop d bdy par level =
     (case par of
        None \<Rightarrow> Some level
      | Some p \<Rightarrow>
          if p = bdy then Some level
          else nestingLevel_loop d bdy (parentElement d p) (level + 1))"

definition calculateNestingLevel :: "element list \<Rightarrow> nat \<Rightarrow> nat \<Rightarrow> nat option" where
  "calculateNestingLevel d bdy el = nestingLevel_loop d bdy (parentElement d el) 0"

definition selector :: "element \<Rightarrow> string" where
  "selector current =
     toLowerCase (tagName current) @
     (if elem_id current \<noteq> [] then CHR ''#'' # elem_id current
      else if className current \<noteq> [] then CHR ''.'' # join ''.'' (classList (className current))
      else [])"

partial_function (option) cssPath_loop ::
  "element list \<Rightarrow> nat \<Rightarrow> nat option \<Rightarrow> string list \<Rightarrow> string list option" where
  "cssPath_loop d bdy current path =
     (case current of
        None \<Rightarrow> Some path
      | Some c \<Rightarrow>
          if c = bdy then Some path
          else cssPath_loop d bdy (parentElement d c) (selector (d ! c) # path))"

definition generateCssPath :: "element list \<Rightarrow> nat \<Rightarrow> nat \<Rightarrow> string option" where
  "generateCssPath d bdy el = map_option (join '' > '') (cssPath_loop d bdy (Some el) [])"

definition createRippleEffect :: "nat \<Rightarrow> state \<Rightarrow> state" where
  "createRippleEffect el s =
     (let ripple = \<lparr>tagName = ''SPAN'', elem_id = [], className = ''ripple-effect'',
                     parent = Some el, position = []\<rparr>
      in s\<lparr>elements := (elements s)[el := (elements s ! el)\<lparr>position := ''relative''\<rparr>] @ [ripple],
           timers := timers s @ [(600, RemoveRipple (length (elements s)))]\<rparr>)"

text \<open>
  The click listener of the \<open>index\<close>-th element matched by \<^verbatim>\<open>.deeply-nested span\<close> at load
  time. \<open>None\<close>: a walk up the ancestors does not end.
\<close>

definition nestedElement_click :: "nat \<Rightarrow> int \<Rightarrow> int \<Rightarrow> state \<Rightarrow> outcome option" where
  "nestedElement_click index t now s =
     (if index < length (nestedElements s) \<and> nestedElements s ! index < length (elements s) then
        let el = nestedElements s ! index in
        case calculateNestingLevel (elements s) (body s) el of
          None \<Rightarrow> None
        | Some level \<Rightarrow>
            (case generateCssPath (elements s) (body s) el of
               None \<Rightarrow> None
             | Some path \<Rightarrow>
                 Some (and_then
                   (logEvent ''nested-element-click''
                      [(''elementIndex'', Num (int index)), (''nestingLevel'', Num (int level)),
                       (''cssPath'', Str path), (''timestamp'', Num t)] now s)
                   (\<lambda>s1. Returned (createRippleEffect el s1))))
      else Some (Returned s))"

subsection \<open>Stress test\<close>

definition createElement :: "string \<Rightarrow> node" where
  "createElement tag = Node tag [] [] None []"

fun appendChild :: "node \<Rightarrow> node \<Rightarrow> node" where
  "appendChild (Node tag cls txt h kids) child = Node tag cls txt h (kids @ [child])"

definition stress_button :: "nat \<Rightarrow> nat \<Rightarrow> node" where
  "stress_button i j =
     Node ''BUTTON'' ''stress-test-btn''
       (''Dynamic Button '' @ string_of_nat i @ ''-'' @ string_of_nat j)
       (Some (StressTestClick i j)) []"

definition stress_subsection :: "nat \<Rightarrow> nat \<Rightarrow> node" where
  "stress_subsection i j =
     appendChild (Node ''DIV'' (''stress-subsection-'' @ string_of_nat j) [] None [])
       (stress_button i j)"

text \<open>The inner and the outer \<^verbatim>\<open>for\<close> loop of \<^verbatim>\<open>performStressTest\<close>.\<close>

function subsection_loop :: "nat \<Rightarrow> nat \<Rightarrow> node \<Rightarrow> node" where
  "subsection_loop i j section_node =
     (if j < 3 then subsection_loop i (j + 1) (appendChild section_node (stress_subsection i j))
      else section_node)"
  by pat_completeness auto
termination
  by (relation "measure (\<lambda>(i, j, n). 3 - j)") auto

declare subsection_loop.simps [simp del]

function section_loop :: "nat \<Rightarrow> node list \<Rightarrow> node list" where
  "section_loop i kids =
     (if i < 5 then
        section_loop (i + 1)
          (kids @ [subsection_loop i 0 (Node ''DIV'' (''stress-section-'' @ string_of_nat i) [] None [])])
      else kids)"
  by pat_completeness auto
termination
  by (relation "measure (\<lambda>(i, kids). 5 - i)") auto

declare section_loop.simps [simp del]

definition performStressTest :: "int \<Rightarrow> int \<Rightarrow> state \<Rightarrow> outcome" where
  "performStressTest t now s =
     (case stressContainer s of
        None \<Rightarrow> Returned s
      | Some _ \<Rightarrow>
          let s1 = s\<lparr>stressContainer := Some []\<rparr>;
              s2 = s1\<lparr>stressContainer := Some (section_loop 0 [])\<rparr>
          in logEvent ''stress-test-performed''
               [(''timestamp'', Num t), (''elementsCreated'', Num 15)] now s2)"

text \<open>Running the click listener of a generated node.\<close>

definition node_click :: "node \<Rightarrow> int \<Rightarrow> int \<Rightarrow> state \<Rightarrow> outcome" where
  "node_click n t now s =
     (case n_onclick n of
        None \<Rightarrow> Returned s
      | Some (StressTestClick i j) \<Rightarrow>
          logEvent ''stress-test-click''
            [(''sectionIndex'', Num (int i)), (''subsectionIndex'', Num (int j)),
             (''timestamp'', Num t)] now s)"

definition child :: "node list \<Rightarrow> nat \<Rightarrow> node option" where
  "child kids k = (if k < length kids then Some (kids ! k) else None)"

text \<open>The button of subsection \<open>j\<close> of section \<open>i\<close> in the container, if there is one.\<close>

definition stress_button_at :: "node list \<Rightarrow> nat \<Rightarrow> nat \<Rightarrow> node option" where
  "stress_button_at kids i j =
     (case child kids i of
        None \<Rightarrow> None
      | Some sec \<Rightarrow>
          (case child (n_children sec) j of
             None \<Rightarrow> None
           | Some sub \<Rightarrow> child (n_children sub) 0))"

definition stressButton_click :: "nat \<Rightarrow> nat \<Rightarrow> int \<Rightarrow> int \<Rightarrow> state \<Rightarrow> outcome" where
  "stressButton_click i j t now s =
     (case stressContainer s of
        None \<Rightarrow> Returned s
      | Some kids \<Rightarrow>
          (case stress_button_at kids i j of
             None \<Rightarrow> Returned s
           | Some b \<Rightarrow> node_click b t now s))"

fun count_buttons :: "node \<Rightarrow> nat" where
  "count_buttons (Node tag cls txt h kids) =
     (if tag = ''BUTTON'' then 1 else 0) + sum_list (map count_buttons kids)"


section \<open>Exporter and resetter\<close>

text \<open>
  \<open>exportTestResults t1 t2 t3\<close>: the readings are those of \<^verbatim>\<open>testDuration\<close>, of
  \<^verbatim>\<open>new Date()\<close> and of the file name. The anchor element is appended to the body and
  removed again before the function returns.
\<close>

definition exportTestResults :: "int \<Rightarrow> int \<Rightarrow> int \<Rightarrow> state \<Rightarrow> state" where
  "exportTestResults t1 t2 t3 s =
     (let results = \<lparr>
            x_testResults = testResults s,
            x_testDuration = t1 - startTime s,
            x_timestamp = ISO_8601 t2,
            x_totalEvents =
              foldl (\<lambda>total events. total + length events) 0 (Object_values (testResults s))\<rparr>
      in s\<lparr>downloads := downloads s @
             [\<lparr>filename = ''webfast-robustness-test-'' @ string_of_int t3 @ ''.json'',
               content = results\<rparr>]\<rparr>)"

text \<open>
  \<^verbatim>\<open>document.getElementById('dynamic-id-btn') || document.querySelector('[id^="dynamic-btn-"]')\<close>,
  over the one element of the page that can carry such an id.
\<close>

definition getElementById :: "dynamic_button option \<Rightarrow> string \<Rightarrow> dynamic_button option" where
  "getElementById doc i =
     (case doc of None \<Rightarrow> None | Some b \<Rightarrow> if el_id b = i then Some b else None)"

definition querySelector_id_prefix :: "dynamic_button option \<Rightarrow> string \<Rightarrow> dynamic_button option" where
  "querySelector_id_prefix doc p =
     (case doc of None \<Rightarrow> None | Some b \<Rightarrow> if starts_with p (el_id b) then Some b else None)"

definition resetTests :: "int \<Rightarrow> int \<Rightarrow> state \<Rightarrow> state" where
  "resetTests t now s =
     (let s1 = updateMetricsDisplay now (s\<lparr>testResults := [], dynamicIdCounter := 1, startTime := t\<rparr>);
          found = (case getElementById (dynamicButton s1) ''dynamic-id-btn'' of
                     Some b \<Rightarrow> Some b
                   | None \<Rightarrow> querySelector_id_prefix (dynamicButton s1) ''dynamic-btn-'')
      in case found of
           None \<Rightarrow> s1
         | Some b \<Rightarrow>
             s1\<lparr>dynamicButton := Some (b\<lparr>el_id := ''dynamic-id-btn'',
                   innerHTML := refresh_emoji @ '' Dynamic ID Button''\<rparr>)\<rparr>)"


section \<open>Timers, page load and runs\<close>

definition fire :: "callback \<Rightarrow> state \<Rightarrow> state" where
  "fire cb s =
     (case cb of
        ClearDynamicBackground \<Rightarrow>
          s\<lparr>dynamicButton := map_option (\<lambda>b. b\<lparr>backgroundColor := []\<rparr>) (dynamicButton s)\<rparr>
      | RevertAriaText \<Rightarrow>
          s\<lparr>ariaButton :=
              map_option (\<lambda>a. a\<lparr>textContent := target_emoji @ '' ARIA Role Button''\<rparr>) (ariaButton s)\<rparr>
      | RemoveRipple r \<Rightarrow>
          (if r < length (elements s) \<and> parent (elements s ! r) \<noteq> None
           then s\<lparr>elements := (elements s)[r := (elements s ! r)\<lparr>parent := None\<rparr>]\<rparr> else s))"

text \<open>The \<open>k\<close>-th pending timer expires.\<close>

definition fire_timer :: "nat \<Rightarrow> state \<Rightarrow> state" where
  "fire_timer k s =
     (if k < length (timers s)
      then fire (snd (timers s ! k)) (s\<lparr>timers := take k (timers s) @ drop (Suc k) (timers s)\<rparr>)
      else s)"

text \<open>
  The page as it is when \<^verbatim>\<open>DOMContentLoaded\<close> fires, and the construction of the manager:
  the counter and the log are initialised, the listeners bound to what the lookups
  find, the session clock read (\<open>t\<close>) and the metrics rendered (\<open>now\<close>).
\<close>

record page =
  page_dynamicButton :: "dynamic_button option"
  page_ariaButton :: "aria_button option"
  page_hasMetrics :: bool
  page_stressContainer :: "node list option"
  page_elements :: "element list"
  page_body :: nat
  page_nestedElements :: "nat list"

definition constructor :: "page \<Rightarrow> int \<Rightarrow> int \<Rightarrow> state" where
  "constructor p t now =
     updateMetricsDisplay now \<lparr>
       dynamicIdCounter = 1,
       testResults = [],
       startTime = t,
       dynamicButton = getElementById (page_dynamicButton p) ''dynamic-id-btn'',
       ariaButton = (case page_ariaButton p of
                       None \<Rightarrow> None
                     | Some a \<Rightarrow> if role a = ''button'' then Some a else None),
       metricsContainer = (if page_hasMetrics p then Some Original else None),
       stressContainer = page_stressContainer p,
       elements = page_elements p,
       body = page_body p,
       nestedElements = page_nestedElements p,
       timers = [],
       downloads = []\<rparr>"

text \<open>
  What can happen after load. \<open>LogEvent\<close> is a direct call of \<^verbatim>\<open>logEvent\<close>, open to test
  automation through the global handle; it is also all that a click on a list item or
  on a nested element does to the recorder.
\<close>

datatype action =
    ClickDynamic int int
  | ClickAria int int
  | KeydownAria string int int
  | RunStressTest int int
  | ClickStress nat nat int int
  | LogEvent string payload int
  | Export int int int
  | Reset int int
  | FireTimer nat

fun step :: "action \<Rightarrow> state \<Rightarrow> state" where
  "step (ClickDynamic t now) s = state_of (dynamicButton_click t now s)"
| "step (ClickAria t now) s = state_of (ariaButton_click t now s)"
| "step (KeydownAria key t now) s = state_of (snd (ariaButton_keydown key t now s))"
| "step (RunStressTest t now) s = state_of (performStressTest t now s)"
| "step (ClickStress i j t now) s = state_of (stressButton_click i j t now s)"
| "step (LogEvent eventType d now) s = state_of (logEvent eventType d now s)"
| "step (Export t1 t2 t3) s = exportTestResults t1 t2 t3 s"
| "step (Reset t now) s = resetTests t now s"
| "step (FireTimer k) s = fire_timer k s"

fun run :: "action list \<Rightarrow> state \<Rightarrow> state" where
  "run [] s = s"
| "run (a # as) s = run as (step a s)"


section \<open>Notions used in the statements\<close>

text \<open>The sum of the lengths of the sequences stored under all keys of the log.\<close>

definition recorded_total :: "eventlog \<Rightarrow> nat" where
  "recorded_total tr = sum_list (map (\<lambda>(k, events). length events) tr)"

text \<open>The sequence stored under a key (empty when the key is absent).\<close>

definition events_of :: "eventlog \<Rightarrow> string \<Rightarrow> payload list" where
  "events_of tr k = (case map_of tr k of None \<Rightarrow> [] | Some events \<Rightarrow> events)"

text \<open>What \<^verbatim>\<open>logEvent\<close> does to the log when it does not throw.\<close>

definition record_event :: "string \<Rightarrow> payload \<Rightarrow> eventlog \<Rightarrow> eventlog" where
  "record_event k d tr = push k d (if map_of tr k = None then tr @ [(k, [])] else tr)"

text \<open>The three numbers shown in the metrics container, once it has been rendered.\<close>

definition displayed_total :: "state \<Rightarrow> nat option" where
  "displayed_total s = (case metricsContainer s of Some (Cards a b c) \<Rightarrow> Some a | _ \<Rightarrow> None)"

definition displayed_types :: "state \<Rightarrow> nat option" where
  "displayed_types s = (case metricsContainer s of Some (Cards a b c) \<Rightarrow> Some b | _ \<Rightarrow> None)"

definition displayed_seconds :: "state \<Rightarrow> int option" where
  "displayed_seconds s = (case metricsContainer s of Some (Cards a b c) \<Rightarrow> Some c | _ \<Rightarrow> None)"

text \<open>The display agrees with the log.\<close>

definition consistent :: "state \<Rightarrow> bool" where
  "consistent s =
     (case metricsContainer s of
        None \<Rightarrow> True
      | Some m \<Rightarrow>
          (case m of
             Original \<Rightarrow> False
           | Cards a b c \<Rightarrow> a = recorded_total (testResults s) \<and> b = length (testResults s)))"

text \<open>The lookup of the resetter finds the dynamic-id button, if the page has one.\<close>

definition findable :: "state \<Rightarrow> bool" where
  "findable s =
     (case dynamicButton s of
        None \<Rightarrow> True
      | Some b \<Rightarrow> el_id b = ''dynamic-id-btn'' \<or> starts_with ''dynamic-btn-'' (el_id b))"

text \<open>A sequence of clicks on the dynamic-id button, given by their clock readings.\<close>

definition clicks :: "(int \<times> int) list \<Rightarrow> action list" where
  "clicks ts = map (\<lambda>(t, now). ClickDynamic t now) ts"

fun is_export :: "action \<Rightarrow> bool" where
  "is_export (Export t1 t2 t3) = True"
| "is_export _ = False"

text \<open>
  \<open>chain_to_body d bdy a ps\<close>: in the store \<open>d\<close> the proper ancestors of \<open>a\<close> below the
  body \<open>bdy\<close> are \<open>ps\<close>, nearest first, and the last of them (or \<open>a\<close> itself) is a child
  of the body.
\<close>

fun chain_to_body :: "element list \<Rightarrow> nat \<Rightarrow> nat \<Rightarrow> nat list \<Rightarrow> bool" where
  "chain_to_body d bdy a [] = (parentElement d a = Some bdy)"
| "chain_to_body d bdy a (p # ps) =
     (parentElement d a = Some p \<and> p \<noteq> bdy \<and> chain_to_body d bdy p ps)"

text \<open>
  The segment of an element as the specification words it: the lower-cased tag name,
  then \<open>#id\<close> when the element has an id, else the class list when it has classes, else
  nothing.
\<close>

definition claimed_segment :: "element \<Rightarrow> string" where
  "claimed_segment e =
     toLowerCase (tagName e) @
     (if elem_id e \<noteq> [] then CHR ''#'' # elem_id e
      else if classList (className e) \<noteq> [] then CHR ''.'' # join ''.'' (classList (className e))
      else [])"

text \<open>The tree the stress test is specified to build: 5 sections of 3 subsections of 1 button.\<close>

definition stress_tree :: "node list" where
  "stress_tree =
     map (\<lambda>i. Node ''DIV'' (''stress-section-'' @ string_of_nat i) [] None
            (map (\<lambda>j. Node ''DIV'' (''stress-subsection-'' @ string_of_nat j) [] None
                    [stress_button i j]) [0..<3])) [0..<5]"


section \<open>A sample page\<close>

definition demo_dom :: "element list" where
  "demo_dom =
     [\<lparr>tagName = ''HTML'', elem_id = [], className = [], parent = None, position = []\<rparr>,
      \<lparr>tagName = ''BODY'', elem_id = [], className = [], parent = Some 0, position = []\<rparr>,
      \<lparr>tagName = ''DIV'', elem_id = [], className = ''deeply-nested'', parent = Some 1,
        position = []\<rparr>,
      \<lparr>tagName = ''DIV'', elem_id = ''level-2'', className = ''level'', parent = Some 2,
        position = []\<rparr>,
      \<lparr>tagName = ''SPAN'', elem_id = [], className = ''leaf hot'', parent = Some 3,
        position = []\<rparr>,
      \<lparr>tagName = ''SPAN'', elem_id = [], className = '' '', parent = Some 2, position = []\<rparr>]"

definition demo_page :: page where
  "demo_page =
     \<lparr>page_dynamicButton =
        Some \<lparr>el_id = ''dynamic-id-btn'', innerHTML = refresh_emoji @ '' Dynamic ID Button'',
              backgroundColor = []\<rparr>,
      page_ariaButton =
        Some \<lparr>role = ''button'', aria_tagName = ''DIV'',
              textContent = target_emoji @ '' ARIA Role Button''\<rparr>,
      page_hasMetrics = True,
      page_stressContainer = Some [],
      page_elements = demo_dom,
      page_body = 1,
      page_nestedElements = [4, 5]\<rparr>"

text \<open>The same page with another label on the dynamic-id button.\<close>

definition plain_page :: page where
  "plain_page =
     demo_page\<lparr>page_dynamicButton :=
       Some \<lparr>el_id = ''dynamic-id-btn'', innerHTML = ''Click me'', backgroundColor = []\<rparr>\<rparr>"

text \<open>The same page without the stress-test container.\<close>

definition bare_page :: page where
  "bare_page = demo_page\<lparr>page_stressContainer := None\<rparr>"

definition demo_state :: state where
  "demo_state = constructor demo_page 1000 1000"

text \<open>
  A run on it: a click on the dynamic-id button, a direct \<^verbatim>\<open>logEvent\<close> call that throws,
  a click on the ARIA button and a second click on the dynamic-id button.
\<close>

definition demo_acts :: "action list" where
  "demo_acts =
     [ClickDynamic 2000 2001, LogEvent ''toString'' [] 2500, ClickAria 3000 3001,
      ClickDynamic 4000 4001]"

definition demo_run :: state where
  "demo_run = run demo_acts demo_state"


section \<open>Facts about the recorder and the renderer\<close>

lemma foldl_total:
  "foldl (\<lambda>total events. total + length events) a (Object_values tr) = a + recorded_total tr"
  by (induction tr arbitrary: a) (auto simp: Object_values_def recorded_total_def)

lemma Math_round_ms: "Math_round (of_int d / 1000) = (d + 500) div 1000"
proof -
  have "(of_int d / 1000 + 1 / 2 :: real) = of_int (d + 500) / of_int 1000"
    by (simp add: field_simps)
  then show ?thesis
    unfolding Math_round_def by (simp only: floor_divide_of_int_eq)
qed

lemma updateMetricsDisplay_eq:
  "updateMetricsDisplay now s =
     (if metricsContainer s = None then s
      else s\<lparr>metricsContainer :=
        Some (Cards (recorded_total (testResults s)) (length (testResults s))
                ((now - startTime s + 500) div 1000))\<rparr>)"
  by (simp add: updateMetricsDisplay_def foldl_total Math_round_ms Object_keys_def
      split: option.splits)

lemma push_keys: "map fst (push k d tr) = map fst tr"
  by (induction tr) auto

lemma push_total: "k \<in> fst ` set tr \<Longrightarrow> recorded_total (push k d tr) = Suc (recorded_total tr)"
  by (induction tr) (force simp: recorded_total_def)+

lemma push_events:
  "map_of (push k d tr) k' =
     (if k' = k then map_option (\<lambda>events. events @ [d]) (map_of tr k) else map_of tr k')"
  by (induction tr) auto

lemma logEvent_eq:
  "logEvent k d now s =
     (if map_of (testResults s) k = None \<and> k \<in> set Object_prototype then Threw TypeError s
      else Returned (updateMetricsDisplay now (s\<lparr>testResults := record_event k d (testResults s)\<rparr>)))"
  by (auto simp: logEvent_def get_property_def record_event_def Let_def split: option.splits)

lemma record_event_total: "recorded_total (record_event k d tr) = Suc (recorded_total tr)"
proof (cases "map_of tr k")
  case None
  have "recorded_total (tr @ [(k, [])]) = recorded_total tr"
    by (simp add: recorded_total_def)
  moreover have "k \<in> fst ` set (tr @ [(k, [])])"
    by simp
  ultimately show ?thesis
    using None push_total [of k "tr @ [(k, [])]" d] by (simp add: record_event_def)
next
  case (Some a)
  then have "k \<in> fst ` set tr"
    by (metis map_of_eq_None_iff option.distinct(1))
  then show ?thesis
    using Some by (simp add: record_event_def push_total)
qed

lemma record_event_keys:
  "map fst (record_event k d tr) = (if map_of tr k = None then map fst tr @ [k] else map fst tr)"
  by (simp add: record_event_def push_keys)

lemma record_event_distinct:
  "distinct (map fst tr) \<Longrightarrow> distinct (map fst (record_event k d tr))"
  by (auto simp: record_event_keys map_of_eq_None_iff)

lemma record_event_events:
  "events_of (record_event k d tr) k' =
     (if k' = k then events_of tr k @ [d] else events_of tr k')"
  by (auto simp: record_event_def events_of_def push_events split: option.splits)

lemma handler_keys [simp]:
  "''dynamic-id-change'' \<notin> set Object_prototype"
  "''aria-button-click'' \<notin> set Object_prototype"
  "''nested-element-click'' \<notin> set Object_prototype"
  "''stress-test-click'' \<notin> set Object_prototype"
  "''stress-test-performed'' \<notin> set Object_prototype"
  by (simp_all add: Object_prototype_def)

lemma update_fields [simp]:
  "testResults (updateMetricsDisplay now s) = testResults s"
  "dynamicIdCounter (updateMetricsDisplay now s) = dynamicIdCounter s"
  "startTime (updateMetricsDisplay now s) = startTime s"
  "dynamicButton (updateMetricsDisplay now s) = dynamicButton s"
  "ariaButton (updateMetricsDisplay now s) = ariaButton s"
  "stressContainer (updateMetricsDisplay now s) = stressContainer s"
  "elements (updateMetricsDisplay now s) = elements s"
  "body (updateMetricsDisplay now s) = body s"
  "nestedElements (updateMetricsDisplay now s) = nestedElements s"
  "timers (updateMetricsDisplay now s) = timers s"
  "downloads (updateMetricsDisplay now s) = downloads s"
  by (simp_all add: updateMetricsDisplay_eq)

lemma metrics_present_update [simp]:
  "(metricsContainer (updateMetricsDisplay now s) = None) = (metricsContainer s = None)"
  by (simp add: updateMetricsDisplay_eq)

lemma logEvent_fields [simp]:
  "dynamicIdCounter (state_of (logEvent k d now s)) = dynamicIdCounter s"
  "startTime (state_of (logEvent k d now s)) = startTime s"
  "dynamicButton (state_of (logEvent k d now s)) = dynamicButton s"
  "ariaButton (state_of (logEvent k d now s)) = ariaButton s"
  "stressContainer (state_of (logEvent k d now s)) = stressContainer s"
  "elements (state_of (logEvent k d now s)) = elements s"
  "body (state_of (logEvent k d now s)) = body s"
  "nestedElements (state_of (logEvent k d now s)) = nestedElements s"
  "timers (state_of (logEvent k d now s)) = timers s"
  "downloads (state_of (logEvent k d now s)) = downloads s"
  "(metricsContainer (state_of (logEvent k d now s)) = None) = (metricsContainer s = None)"
  by (simp_all add: logEvent_eq)


section \<open>The handlers in closed form\<close>

lemma dynamicButton_click_eq:
  "dynamicButton_click t now s =
     (case dynamicButton s of
        None \<Rightarrow> Returned s
      | Some b \<Rightarrow>
          Returned (updateMetricsDisplay now (s\<lparr>
            dynamicIdCounter := dynamicIdCounter s + 1,
            dynamicButton := Some (b\<lparr>
              el_id := ''dynamic-btn-'' @ string_of_nat (dynamicIdCounter s),
              innerHTML := refresh_emoji @ '' Dynamic ID Button (ID: '' @
                 ''dynamic-btn-'' @ string_of_nat (dynamicIdCounter s) @ '')'',
              backgroundColor := ''#27ae60''\<rparr>),
            testResults := record_event ''dynamic-id-change''
              [(''oldId'', Str (el_id b)),
               (''newId'', Str (''dynamic-btn-'' @ string_of_nat (dynamicIdCounter s))),
               (''timestamp'', Num t)] (testResults s),
            timers := timers s @ [(500, ClearDynamicBackground)]\<rparr>)))"
  by (simp add: dynamicButton_click_def logEvent_eq updateMetricsDisplay_eq Let_def
      split: option.splits)

lemma ariaButton_click_eq:
  "ariaButton_click t now s =
     (case ariaButton s of
        None \<Rightarrow> Returned s
      | Some a \<Rightarrow>
          Returned (updateMetricsDisplay now (s\<lparr>
            ariaButton := Some (a\<lparr>textContent := check_emoji @ '' ARIA Button Clicked!''\<rparr>),
            testResults := record_event ''aria-button-click''
              [(''role'', Str (role a)), (''tagName'', Str (aria_tagName a)),
               (''timestamp'', Num t)] (testResults s),
            timers := timers s @ [(2000, RevertAriaText)]\<rparr>)))"
  by (simp add: ariaButton_click_def logEvent_eq updateMetricsDisplay_eq Let_def
      split: option.splits)

lemma performStressTest_eq:
  "performStressTest t now s =
     (case stressContainer s of
        None \<Rightarrow> Returned s
      | Some old \<Rightarrow>
          Returned (updateMetricsDisplay now (s\<lparr>
            stressContainer := Some (section_loop 0 []),
            testResults := record_event ''stress-test-performed''
              [(''timestamp'', Num t), (''elementsCreated'', Num 15)] (testResults s)\<rparr>)))"
  by (simp add: performStressTest_def logEvent_eq updateMetricsDisplay_eq Let_def
      split: option.splits)

lemma keydown_step:
  "step (KeydownAria key t now) s =
     (if key = ''Enter'' \<or> key = '' '' then step (ClickAria t now) s else s)"
proof (cases "ariaButton s")
  case None
  then show ?thesis
    by (simp only: step.simps ariaButton_keydown_def ariaButton_click_def option.case snd_conv
        state_of.simps if_cancel)
next
  case (Some a)
  then show ?thesis
    by (simp only: step.simps ariaButton_keydown_def option.case snd_conv state_of.simps
        if_distrib [of snd] if_distrib [of state_of])
qed

lemma demo_run_log:
  "testResults demo_run =
     [(''dynamic-id-change'',
         [[(''oldId'', Str ''dynamic-id-btn''), (''newId'', Str ''dynamic-btn-1''),
           (''timestamp'', Num 2000)],
          [(''oldId'', Str ''dynamic-btn-1''), (''newId'', Str ''dynamic-btn-2''),
           (''timestamp'', Num 4000)]]),
      (''aria-button-click'',
         [[(''role'', Str ''button''), (''tagName'', Str ''DIV''), (''timestamp'', Num 3000)]])]"
  by (simp add: demo_run_def demo_acts_def demo_state_def constructor_def demo_page_def
      getElementById_def dynamicButton_click_eq ariaButton_click_eq logEvent_eq
      updateMetricsDisplay_eq record_event_def string_of_nat.simps digit_def Object_prototype_def)

lemma demo_run_fields:
  "startTime demo_run = 1000" "downloads demo_run = []" "dynamicIdCounter demo_run = 3"
  "map_option el_id (dynamicButton demo_run) = Some ''dynamic-btn-2''"
  by (simp_all add: demo_run_def demo_acts_def demo_state_def constructor_def demo_page_def
      getElementById_def dynamicButton_click_eq ariaButton_click_eq logEvent_eq
      updateMetricsDisplay_eq string_of_nat.simps digit_def Object_prototype_def)


section \<open>Elapsed time shown by the renderer\<close>

lemma round_div:
  "(d + 500) div 1000 = d div 1000 + (if d mod 1000 < 500 then 0 else 1)" for d :: int
proof -
  define q r where "q = d div 1000" and "r = d mod 1000"
  have d: "d = r + q * 1000" by (simp add: q_def r_def)
  have r: "0 \<le> r" "r < 1000" by (simp_all add: r_def)
  have "(d + 500) div 1000 = (r + 500 + q * 1000) div 1000" by (simp add: d)
  also have "\<dots> = q + (r + 500) div 1000" by (rule div_mult_self1) simp
  finally have split: "(d + 500) div 1000 = q + (r + 500) div 1000" .
  show ?thesis
  proof (cases "r < 500")
    case True
    then have "(r + 500) div 1000 = 0" using r by (simp add: div_pos_pos_trivial)
    then show ?thesis using split True by (simp add: q_def r_def)
  next
    case False
    have "(r + 500) div 1000 = ((r - 500) + 1 * 1000) div 1000" by simp
    also have "\<dots> = 1 + (r - 500) div 1000" by (rule div_mult_self1) simp
    also have "(r - 500) div 1000 = 0" using r False by (simp add: div_pos_pos_trivial)
    finally have "(r + 500) div 1000 = 1" by simp
    then show ?thesis using split False by (simp add: q_def r_def)
  qed
qed

lemma floor_half_ms: "\<lfloor>(of_int d :: real) / 1000 + 1 / 2\<rfloor> = (d + 500) div 1000"
  using Math_round_ms [of d] by (simp only: Math_round_def)

lemma displayed_seconds_update:
  "metricsContainer s \<noteq> None \<Longrightarrow>
   displayed_seconds (updateMetricsDisplay now s) = Some ((now - startTime s + 500) div 1000)"
  by (auto simp: updateMetricsDisplay_eq displayed_seconds_def)

text \<open>
  Claim C7 says that the elapsed duration written by the renderer is the elapsed
  milliseconds floored to whole seconds. The renderer writes
  \<^verbatim>\<open>Math.round(testDuration / 1000)\<close>: 500 ms after the session clock it shows 1, where
  the floor is 0.
\<close>

theorem elapsed_seconds_floor_counterexample:
  "startTime demo_state \<le> 1500 \<and>
   displayed_seconds (updateMetricsDisplay 1500 demo_state) = Some 1 \<and>
   \<lfloor>(of_int (1500 - startTime demo_state) :: real) / 1000\<rfloor> = 0"
proof -
  have st: "startTime demo_state = 1000" and mc: "metricsContainer demo_state \<noteq> None"
    by (simp_all add: demo_state_def constructor_def demo_page_def updateMetricsDisplay_eq)
  show ?thesis by (simp add: displayed_seconds_update [OF mc] st)
qed

text \<open>
  C7, as amended: for every render time \<open>now\<close> not before the session clock, with the
  metrics container present, the seconds written are the elapsed milliseconds divided
  by 1000 and rounded to the nearest integer, a half rounding up; that is the floor of
  the quotient when the remainder is below 500 ms and one more otherwise.
\<close>

theorem elapsed_seconds_rounded:
  assumes "startTime s \<le> now" and "metricsContainer s \<noteq> None"
  shows "displayed_seconds (updateMetricsDisplay now s) =
           Some \<lfloor>(of_int (now - startTime s) :: real) / 1000 + 1 / 2\<rfloor> \<and>
         displayed_seconds (updateMetricsDisplay now s) =
           Some ((now - startTime s) div 1000 +
                 (if (now - startTime s) mod 1000 < 500 then 0 else 1))"
  using assms(2)
  by (simp only: displayed_seconds_update floor_half_ms round_div [symmetric] simp_thms)

theorem elapsed_seconds_rounded_witness:
  "startTime demo_state \<le> 2700 \<and> metricsContainer demo_state \<noteq> None \<and>
   displayed_seconds (updateMetricsDisplay 2700 demo_state) = Some 2"
proof -
  have st: "startTime demo_state = 1000" and mc: "metricsContainer demo_state \<noteq> None"
    by (simp_all add: demo_state_def constructor_def demo_page_def updateMetricsDisplay_eq)
  have le: "startTime demo_state \<le> 2700"
    by (simp add: st)
  have "displayed_seconds (updateMetricsDisplay 2700 demo_state) =
      Some ((2700 - startTime demo_state) div 1000 +
                 (if (2700 - startTime demo_state) mod 1000 < 500 then 0 else 1))"
    by (rule conjunct2 [OF elapsed_seconds_rounded [OF le mc]])
  then show ?thesis using st mc by simp
qed


section \<open>Stress test\<close>

text \<open>
  C9: when the stress-test container is absent, \<^verbatim>\<open>performStressTest\<close> returns at once and
  leaves the whole state as it was; in particular no \<^verbatim>\<open>stress-test-performed\<close> record is
  appended.
\<close>

theorem stress_test_without_container:
  "stressContainer s = None \<Longrightarrow> performStressTest t now s = Returned s"
  by (simp add: performStressTest_def)

theorem stress_test_without_container_witness:
  "stressContainer (constructor bare_page 1000 1000) = None \<and>
   performStressTest 2000 2000 (constructor bare_page 1000 1000) = Returned (constructor bare_page 1000 1000) \<and>
   events_of (testResults (state_of (performStressTest 2000 2000 (constructor bare_page 1000 1000))))
     ''stress-test-performed'' = []"
  using stress_test_without_container [of "constructor bare_page 1000 1000" 2000 2000]
  by (simp add: constructor_def bare_page_def demo_page_def events_of_def)


section \<open>Exporter\<close>

lemma logEvent_downloads:
  "state_of (logEvent k e now (s\<lparr>downloads := d\<rparr>)) = (state_of (logEvent k e now s))\<lparr>downloads := d\<rparr>"
  by (simp add: logEvent_eq updateMetricsDisplay_eq)

lemma step_downloads:
  assumes "\<not> is_export a"
  shows "step a (s\<lparr>downloads := d\<rparr>) = (step a s)\<lparr>downloads := d\<rparr>"
proof (cases a)
  case (ClickDynamic t now)
  then show ?thesis
    by (simp add: dynamicButton_click_eq updateMetricsDisplay_eq split: option.splits)
next
  case (ClickAria t now)
  then show ?thesis
    by (simp add: ariaButton_click_eq updateMetricsDisplay_eq split: option.splits)
next
  case (KeydownAria key t now)
  have "step (ClickAria t now) (s\<lparr>downloads := d\<rparr>) = (step (ClickAria t now) s)\<lparr>downloads := d\<rparr>"
    by (simp add: ariaButton_click_eq updateMetricsDisplay_eq split: option.splits)
  then show ?thesis
    unfolding KeydownAria
    by (simp only: keydown_step if_distrib [of "\<lambda>x. x\<lparr>downloads := d\<rparr>"])
next
  case (RunStressTest t now)
  then show ?thesis
    by (simp add: performStressTest_eq updateMetricsDisplay_eq split: option.splits)
next
  case (ClickStress i j t now)
  then show ?thesis
    by (simp add: stressButton_click_def node_click_def logEvent_downloads
        split: option.splits listener.splits)
next
  case (LogEvent k e now)
  then show ?thesis by (simp add: logEvent_downloads)
next
  case (Export t1 t2 t3)
  then show ?thesis using assms by simp
next
  case (Reset t now)
  then show ?thesis
    by (simp add: resetTests_def Let_def updateMetricsDisplay_eq getElementById_def
        querySelector_id_prefix_def split: option.splits)
next
  case (FireTimer k)
  then show ?thesis
    by (auto simp: fire_timer_def fire_def split: callback.splits)
qed

lemma export_forget:
  "(exportTestResults t1 t2 t3 s)\<lparr>downloads := d\<rparr> = s\<lparr>downloads := d\<rparr>"
  by (simp add: exportTestResults_def)

lemma run_without_exports:
  "s\<lparr>downloads := []\<rparr> = s'\<lparr>downloads := []\<rparr> \<Longrightarrow>
   (run acts s)\<lparr>downloads := []\<rparr> = (run (filter (\<lambda>a. \<not> is_export a) acts) s')\<lparr>downloads := []\<rparr>"
proof (induction acts arbitrary: s s')
  case Nil
  then show ?case by simp
next
  case (Cons a acts)
  show ?case
  proof (cases "is_export a")
    case True
    then obtain t1 t2 t3 where a: "a = Export t1 t2 t3" by (cases a) auto
    have "(step a s)\<lparr>downloads := []\<rparr> = s'\<lparr>downloads := []\<rparr>"
      using Cons.prems by (simp add: a export_forget)
    from Cons.IH [OF this] show ?thesis using True by simp
  next
    case False
    have "(step a s)\<lparr>downloads := []\<rparr> = step a (s\<lparr>downloads := []\<rparr>)"
      by (simp add: step_downloads [OF False])
    also have "\<dots> = (step a s')\<lparr>downloads := []\<rparr>"
      by (simp add: Cons.prems step_downloads [OF False])
    finally have "(step a s)\<lparr>downloads := []\<rparr> = (step a s')\<lparr>downloads := []\<rparr>" .
    from Cons.IH [OF this] show ?thesis using False by simp
  qed
qed

text \<open>
  C10: \<^verbatim>\<open>exportTestResults\<close> leaves the log, the counter and the session clock as they
  were (it changes nothing of the state but the list of files offered for download), and
  a run with exports in it reaches the same recorder state, metrics included, as the run
  with the exports left out.
\<close>

theorem export_leaves_state:
  "testResults (exportTestResults t1 t2 t3 s) = testResults s \<and>
   dynamicIdCounter (exportTestResults t1 t2 t3 s) = dynamicIdCounter s \<and>
   startTime (exportTestResults t1 t2 t3 s) = startTime s \<and>
   (exportTestResults t1 t2 t3 s)\<lparr>downloads := downloads s\<rparr> = s \<and>
   (run acts s)\<lparr>downloads := []\<rparr> =
     (run (filter (\<lambda>a. \<not> is_export a) acts) s)\<lparr>downloads := []\<rparr>"
  using run_without_exports [of s s acts] by (simp add: exportTestResults_def)

theorem export_leaves_state_witness:
  "testResults (exportTestResults 5000 5001 5002 demo_state) = testResults demo_state \<and>
   dynamicIdCounter (exportTestResults 5000 5001 5002 demo_state) = 1 \<and>
   startTime (exportTestResults 5000 5001 5002 demo_state) = 1000 \<and>
   (run [Export 1 2 3, ClickDynamic 2000 2001, Export 4 5 6] demo_state)\<lparr>downloads := []\<rparr> =
     (run [ClickDynamic 2000 2001] demo_state)\<lparr>downloads := []\<rparr>"
proof -
  have "dynamicIdCounter demo_state = 1" "startTime demo_state = 1000"
    by (simp_all add: demo_state_def constructor_def)
  then show ?thesis
    using export_leaves_state [of 5000 5001 5002 demo_state
        "[Export 1 2 3, ClickDynamic 2000 2001, Export 4 5 6]"]
    by simp
qed

text \<open>
  C4: the exported object has the four fields \<open>testResults\<close>, \<open>testDuration\<close>, \<open>timestamp\<close>
  and \<open>totalEvents\<close>, where \<open>testResults\<close> is the log at export time, \<open>timestamp\<close> the
  ISO-8601 rendering of the clock reading, \<open>totalEvents\<close> the sum of the lengths of the
  sequences under all keys, and the file name carries the epoch-millisecond reading.
\<close>

theorem export_contents:
  "downloads (exportTestResults t1 t2 t3 s) =
     downloads s @
     [\<lparr>filename = ''webfast-robustness-test-'' @ string_of_int t3 @ ''.json'',
       content = \<lparr>x_testResults = testResults s,
                  x_testDuration = t1 - startTime s,
                  x_timestamp = ISO_8601 t2,
                  x_totalEvents = recorded_total (testResults s)\<rparr>\<rparr>]"
  by (simp add: exportTestResults_def foldl_total)

theorem export_contents_witness:
  "downloads (exportTestResults 5000 5001 5002 demo_run) =
     [\<lparr>filename = ''webfast-robustness-test-5002.json'',
       content = \<lparr>x_testResults = testResults demo_run, x_testDuration = 4000,
                  x_timestamp = ISO_8601 5001, x_totalEvents = 3\<rparr>\<rparr>]"
proof -
  have "recorded_total (testResults demo_run) = 3"
    by (simp add: demo_run_log recorded_total_def)
  then show ?thesis
    using export_contents [of 5000 5001 5002 demo_run]
    by (simp add: demo_run_fields string_of_int_def string_of_nat.simps digit_def)
qed


section \<open>Dynamic-id button and resetter\<close>

lemma run_append: "run (as @ bs) s = run bs (run as s)"
  by (induction as arbitrary: s) auto

lemma click_step_fields:
  assumes "dynamicButton s = Some b"
  shows "dynamicIdCounter (step (ClickDynamic t now) s) = dynamicIdCounter s + 1"
    and "map_option el_id (dynamicButton (step (ClickDynamic t now) s)) =
           Some (''dynamic-btn-'' @ string_of_nat (dynamicIdCounter s))"
  using assms by (simp_all add: dynamicButton_click_eq)

lemma clicks_snoc: "clicks (ts @ [(t, now)]) = clicks ts @ [ClickDynamic t now]"
  by (simp add: clicks_def)

lemma run_clicks:
  assumes "dynamicButton s \<noteq> None"
  shows "dynamicButton (run (clicks ts) s) \<noteq> None \<and>
         dynamicIdCounter (run (clicks ts) s) = dynamicIdCounter s + length ts \<and>
         (ts \<noteq> [] \<longrightarrow> map_option el_id (dynamicButton (run (clicks ts) s)) =
            Some (''dynamic-btn-'' @ string_of_nat (dynamicIdCounter s + length ts - 1)))"
proof (induction ts rule: rev_induct)
  case Nil
  then show ?case using assms by (simp add: clicks_def)
next
  case (snoc x ts)
  obtain t now where x: "x = (t, now)" by (cases x)
  from snoc obtain b where b: "dynamicButton (run (clicks ts) s) = Some b" by auto
  show ?case
    using snoc click_step_fields [OF b, of t now]
    by (auto simp: x clicks_snoc run_append)
qed

lemma constructor_fields:
  "dynamicIdCounter (constructor p t now) = 1"
  "testResults (constructor p t now) = []"
  "startTime (constructor p t now) = t"
  "dynamicButton (constructor p t now) = getElementById (page_dynamicButton p) ''dynamic-id-btn''"
  "(metricsContainer (constructor p t now) = None) = (\<not> page_hasMetrics p)"
  by (simp_all add: constructor_def)

lemma getElementById_Some: "getElementById doc i = Some b \<Longrightarrow> el_id b = i \<and> doc = Some b"
  by (auto simp: getElementById_def split: option.splits if_splits)

lemma findable_constructor: "findable (constructor p t now)"
  by (auto simp: findable_def constructor_fields dest: getElementById_Some split: option.splits)

lemma starts_with_dynamic [simp]: "starts_with ''dynamic-btn-'' (''dynamic-btn-'' @ x)"
  by (simp add: starts_with_def)

lemma findable_frame: "dynamicButton s' = dynamicButton s \<Longrightarrow> findable s' = findable s"
  by (simp add: findable_def)

lemma resetTests_eq:
  "resetTests t now s =
     (updateMetricsDisplay now (s\<lparr>testResults := [], dynamicIdCounter := 1, startTime := t\<rparr>))
       \<lparr>dynamicButton :=
          (case dynamicButton s of
             None \<Rightarrow> None
           | Some b \<Rightarrow>
               if el_id b = ''dynamic-id-btn'' \<or> starts_with ''dynamic-btn-'' (el_id b)
               then Some (b\<lparr>el_id := ''dynamic-id-btn'',
                            innerHTML := refresh_emoji @ '' Dynamic ID Button''\<rparr>)
               else Some b)\<rparr>"
  by (simp add: resetTests_def Let_def getElementById_def querySelector_id_prefix_def
      updateMetricsDisplay_eq split: option.splits)

lemma step_button:
  "(dynamicButton (step a s) = None) = (dynamicButton s = None)"
proof (cases a)
  case (KeydownAria key t now)
  have "(dynamicButton (step (ClickAria t now) s) = None) = (dynamicButton s = None)"
    by (simp add: ariaButton_click_eq split: option.splits)
  then show ?thesis
    unfolding KeydownAria
    by (cases "key = ''Enter'' \<or> key = '' ''") (simp_all only: keydown_step if_True if_False)
next
  case (ClickStress i j t now)
  then show ?thesis
    by (simp add: stressButton_click_def node_click_def split: option.splits listener.splits)
next
  case (FireTimer k)
  then show ?thesis by (auto simp: fire_timer_def fire_def split: callback.splits)
qed (simp_all add: dynamicButton_click_eq ariaButton_click_eq performStressTest_eq
      exportTestResults_def resetTests_eq split: option.splits)

lemma step_findable:
  assumes "findable s" shows "findable (step a s)"
proof (cases a)
  case (ClickDynamic t now)
  then show ?thesis
    by (simp add: dynamicButton_click_eq findable_def starts_with_def split: option.splits)
next
  case (ClickAria t now)
  then show ?thesis using assms by (simp add: ariaButton_click_eq findable_def split: option.splits)
next
  case (KeydownAria key t now)
  have "findable (step (ClickAria t now) s)"
    using assms by (simp add: ariaButton_click_eq findable_def split: option.splits)
  then show ?thesis
    unfolding KeydownAria using assms
    by (cases "key = ''Enter'' \<or> key = '' ''") (simp_all only: keydown_step if_True if_False)
next
  case (RunStressTest t now)
  then show ?thesis using assms by (simp add: performStressTest_eq findable_def split: option.splits)
next
  case (ClickStress i j t now)
  then show ?thesis using assms
    by (simp add: stressButton_click_def node_click_def findable_def split: option.splits listener.splits)
next
  case (LogEvent k d now)
  then show ?thesis using assms by (simp add: findable_def)
next
  case (Export t1 t2 t3)
  then show ?thesis using assms by (simp add: exportTestResults_def findable_def)
next
  case (Reset t now)
  then show ?thesis using assms
    by (auto simp: resetTests_eq findable_def split: option.splits)
next
  case (FireTimer k)
  then show ?thesis using assms
    by (auto simp: fire_timer_def fire_def findable_def split: callback.splits option.splits)
qed

lemma run_findable: "findable s \<Longrightarrow> findable (run acts s)"
  by (induction acts arbitrary: s) (auto simp: step_findable)

lemma run_button: "(dynamicButton (run acts s) = None) = (dynamicButton s = None)"
  by (induction acts arbitrary: s) (auto simp: step_button)

lemma reset_button:
  assumes "findable s" and "dynamicButton s \<noteq> None"
  shows "map_option el_id (dynamicButton (resetTests t now s)) = Some ''dynamic-id-btn''"
    and "map_option innerHTML (dynamicButton (resetTests t now s)) =
           Some (refresh_emoji @ '' Dynamic ID Button'')"
  using assms by (auto simp: resetTests_eq findable_def split: option.splits)

lemma reset_fields:
  "testResults (resetTests t now s) = []"
  "dynamicIdCounter (resetTests t now s) = 1"
  "startTime (resetTests t now s) = t"
  "(dynamicButton (resetTests t now s) = None) = (dynamicButton s = None)"
  by (simp_all add: resetTests_eq split: option.splits)

lemma fresh_or_reset:
  assumes "s0 = constructor p t0 now0 \<or> s0 = resetTests t now (run acts (constructor p t0 now0))"
    and "dynamicButton s0 \<noteq> None"
  shows "dynamicIdCounter s0 = 1" and "map_option el_id (dynamicButton s0) = Some ''dynamic-id-btn''"
proof -
  show "dynamicIdCounter s0 = 1"
    using assms(1) by (auto simp: constructor_fields reset_fields)
  show "map_option el_id (dynamicButton s0) = Some ''dynamic-id-btn''"
    using assms(1)
  proof
    assume s0: "s0 = constructor p t0 now0"
    then obtain b where "getElementById (page_dynamicButton p) ''dynamic-id-btn'' = Some b"
      using assms(2) by (auto simp: constructor_fields)
    then show ?thesis
      using getElementById_Some [of "page_dynamicButton p" "''dynamic-id-btn''" b]
      by (simp only: s0 constructor_fields option.map)
  next
    assume s0: "s0 = resetTests t now (run acts (constructor p t0 now0))"
    have "findable (run acts (constructor p t0 now0))"
      by (rule run_findable [OF findable_constructor])
    moreover have "dynamicButton (run acts (constructor p t0 now0)) \<noteq> None"
      using assms(2) by (simp add: s0 reset_fields)
    ultimately show ?thesis
      unfolding s0 by (rule reset_button)
  qed
qed

text \<open>
  Claim C1 says that after every sequence of \<open>N\<close> clicks on the dynamic-id button, from
  a fresh or freshly reset state, the counter is \<open>N + 1\<close> and the identifier of the button
  is \<^verbatim>\<open>dynamic-btn-N\<close>. For the empty sequence the identifier is still the one the
  button was found under, \<^verbatim>\<open>dynamic-id-btn\<close>, not \<^verbatim>\<open>dynamic-btn-0\<close>.
\<close>

theorem dynamic_id_zero_clicks_counterexample:
  "dynamicButton demo_state \<noteq> None \<and>
   map_option el_id (dynamicButton (run (clicks []) demo_state)) = Some ''dynamic-id-btn'' \<and>
   ''dynamic-id-btn'' \<noteq> ''dynamic-btn-'' @ string_of_nat (length ([] :: (int \<times> int) list))"
  by (simp add: demo_state_def constructor_def demo_page_def getElementById_def clicks_def)

text \<open>
  C1, as amended: from a fresh state or a state just reset, with the button present, the
  counter is 1; after \<open>N\<close> clicks it is \<open>N + 1\<close>, after the first \<open>k\<close> of them \<open>k + 1\<close> (one
  increment per click), and the identifier of the button is \<^verbatim>\<open>dynamic-btn-N\<close> when
  \<open>N \<ge> 1\<close> and \<^verbatim>\<open>dynamic-id-btn\<close> when \<open>N = 0\<close>.
\<close>

theorem dynamic_id_after_clicks:
  assumes "s0 = constructor p t0 now0 \<or> s0 = resetTests t now (run acts (constructor p t0 now0))"
    and "dynamicButton s0 \<noteq> None"
  shows "dynamicIdCounter s0 = 1 \<and>
         dynamicIdCounter (run (clicks ts) s0) = length ts + 1 \<and>
         map_option el_id (dynamicButton (run (clicks ts) s0)) =
           Some (if ts = [] then ''dynamic-id-btn'' else ''dynamic-btn-'' @ string_of_nat (length ts)) \<and>
         (\<forall>k \<le> length ts. dynamicIdCounter (run (clicks (take k ts)) s0) = k + 1)"
proof -
  note start = fresh_or_reset [OF assms]
  have count: "dynamicIdCounter (run (clicks us) s0) = length us + 1" for us
    using run_clicks [OF assms(2), of us] start(1) by simp
  have ident: "map_option el_id (dynamicButton (run (clicks ts) s0)) =
      Some (if ts = [] then ''dynamic-id-btn'' else ''dynamic-btn-'' @ string_of_nat (length ts))"
  proof (cases "ts = []")
    case True
    then show ?thesis using start(2) by (simp add: clicks_def)
  next
    case False
    then show ?thesis using run_clicks [OF assms(2), of ts] start(1) by simp
  qed
  have "dynamicIdCounter (run (clicks (take k ts)) s0) = k + 1" if "k \<le> length ts" for k
    using count [of "take k ts"] that by simp
  then show ?thesis using start(1) count ident by blast
qed

theorem dynamic_id_after_clicks_witness:
  "dynamicButton demo_state \<noteq> None \<and>
   dynamicIdCounter demo_state = 1 \<and>
   dynamicIdCounter (run (clicks [(2000, 2001), (3000, 3001), (4000, 4001)]) demo_state) = 4 \<and>
   map_option el_id (dynamicButton (run (clicks [(2000, 2001), (3000, 3001), (4000, 4001)]) demo_state)) =
     Some ''dynamic-btn-3''"
proof -
  have fresh: "demo_state = constructor demo_page 1000 1000 \<or>
      demo_state = resetTests 0 0 (run [] (constructor demo_page 1000 1000))"
    by (simp add: demo_state_def)
  have present: "dynamicButton demo_state \<noteq> None"
    by (simp add: demo_state_def constructor_def demo_page_def getElementById_def)
  show ?thesis
    using dynamic_id_after_clicks [OF fresh present, of "[(2000, 2001), (3000, 3001), (4000, 4001)]"]
      present
    by (simp add: string_of_nat.simps digit_def)
qed

lemma reset_twice: "resetTests t' now' (resetTests t now s) = resetTests t' now' s"
  by (auto simp: resetTests_eq updateMetricsDisplay_eq starts_with_def split: option.splits)

text \<open>
  Claim C3 says that a reset restores the label of the dynamic-id button to its original
  value. \<^verbatim>\<open>resetTests\<close> does not keep the label the page shipped: it writes a fixed text.
  On a page whose button is labelled \<^verbatim>\<open>Click me\<close> a reset, with no interaction before it
  or after a click, leaves the fixed text, not \<^verbatim>\<open>Click me\<close>.
\<close>

theorem reset_label_counterexample:
  "map_option innerHTML (dynamicButton (constructor plain_page 1000 1000)) = Some ''Click me'' \<and>
   map_option innerHTML (dynamicButton (resetTests 9000 9001 (run [] (constructor plain_page 1000 1000)))) =
     Some (refresh_emoji @ '' Dynamic ID Button'') \<and>
   map_option innerHTML (dynamicButton (resetTests 9000 9001
       (run [ClickDynamic 2000 2001] (constructor plain_page 1000 1000)))) =
     Some (refresh_emoji @ '' Dynamic ID Button'') \<and>
   refresh_emoji @ '' Dynamic ID Button'' \<noteq> ''Click me''"
  by (simp add: plain_page_def demo_page_def constructor_def getElementById_def resetTests_eq
      dynamicButton_click_eq updateMetricsDisplay_eq starts_with_def refresh_emoji_def)

text \<open>
  C3, as amended: after any run from page load, with any number of clicks on the
  dynamic-id button in it, \<^verbatim>\<open>resetTests\<close> leaves the log empty, the counter at 1 and the
  session clock at the reading taken by the reset; the button carries its original
  identifier \<^verbatim>\<open>dynamic-id-btn\<close> and as label the fixed text the resetter writes, which
  is the original label exactly when the page shipped the button with that text. A
  second reset with the same readings changes nothing, and a reset after a reset gives
  what the later one gives alone.
\<close>

theorem reset_restores:
  assumes "page_dynamicButton p = Some b0" and "el_id b0 = ''dynamic-id-btn''"
  shows "testResults (resetTests t now (run acts (constructor p t0 now0))) = [] \<and>
         dynamicIdCounter (resetTests t now (run acts (constructor p t0 now0))) = 1 \<and>
         startTime (resetTests t now (run acts (constructor p t0 now0))) = t \<and>
         map_option el_id (dynamicButton (resetTests t now (run acts (constructor p t0 now0)))) =
           Some ''dynamic-id-btn'' \<and>
         map_option innerHTML (dynamicButton (resetTests t now (run acts (constructor p t0 now0)))) =
           Some (refresh_emoji @ '' Dynamic ID Button'') \<and>
         (map_option innerHTML (dynamicButton (resetTests t now (run acts (constructor p t0 now0)))) =
              Some (innerHTML b0)) =
           (innerHTML b0 = refresh_emoji @ '' Dynamic ID Button'') \<and>
         resetTests t now (resetTests t now (run acts (constructor p t0 now0))) =
           resetTests t now (run acts (constructor p t0 now0)) \<and>
         resetTests t' now' (resetTests t now (run acts (constructor p t0 now0))) =
           resetTests t' now' (run acts (constructor p t0 now0))"
proof -
  let ?s = "run acts (constructor p t0 now0)"
  have "dynamicButton (constructor p t0 now0) \<noteq> None"
    using assms by (simp add: constructor_fields getElementById_def)
  then have present: "dynamicButton ?s \<noteq> None"
    by (simp add: run_button)
  have "findable ?s"
    by (rule run_findable [OF findable_constructor])
  from reset_button [OF this present]
  have ident: "map_option el_id (dynamicButton (resetTests t now ?s)) = Some ''dynamic-id-btn''"
    and label: "map_option innerHTML (dynamicButton (resetTests t now ?s)) =
      Some (refresh_emoji @ '' Dynamic ID Button'')"
    by simp_all
  have original: "(map_option innerHTML (dynamicButton (resetTests t now ?s)) = Some (innerHTML b0)) =
      (innerHTML b0 = refresh_emoji @ '' Dynamic ID Button'')"
    unfolding label by (simp add: eq_commute)
  have cleared: "testResults (resetTests t now ?s) = []" "dynamicIdCounter (resetTests t now ?s) = 1"
    "startTime (resetTests t now ?s) = t"
    by (simp_all add: reset_fields)
  have again: "resetTests t now (resetTests t now ?s) = resetTests t now ?s"
    "resetTests t' now' (resetTests t now ?s) = resetTests t' now' ?s"
    by (rule reset_twice)+
  show ?thesis
    using cleared ident label original again by (intro conjI)
qed

theorem reset_restores_witness:
  "page_dynamicButton demo_page =
     Some \<lparr>el_id = ''dynamic-id-btn'', innerHTML = refresh_emoji @ '' Dynamic ID Button'',
           backgroundColor = []\<rparr> \<and>
   dynamicIdCounter demo_run = 3 \<and>
   map_option el_id (dynamicButton demo_run) = Some ''dynamic-btn-2'' \<and>
   testResults (resetTests 9000 9001 demo_run) = [] \<and>
   dynamicIdCounter (resetTests 9000 9001 demo_run) = 1 \<and>
   startTime (resetTests 9000 9001 demo_run) = 9000 \<and>
   map_option el_id (dynamicButton (resetTests 9000 9001 demo_run)) = Some ''dynamic-id-btn'' \<and>
   map_option innerHTML (dynamicButton (resetTests 9000 9001 demo_run)) =
     Some (refresh_emoji @ '' Dynamic ID Button'') \<and>
   resetTests 9000 9001 (resetTests 9000 9001 demo_run) = resetTests 9000 9001 demo_run"
proof -
  have p: "page_dynamicButton demo_page =
     Some \<lparr>el_id = ''dynamic-id-btn'', innerHTML = refresh_emoji @ '' Dynamic ID Button'',
           backgroundColor = []\<rparr>"
    by (simp add: demo_page_def)
  have i: "el_id \<lparr>el_id = ''dynamic-id-btn'', innerHTML = refresh_emoji @ '' Dynamic ID Button'',
           backgroundColor = []\<rparr> = ''dynamic-id-btn''"
    by simp
  have s: "run demo_acts (constructor demo_page 1000 1000) = demo_run"
    by (simp only: demo_run_def demo_state_def)
  note r = reset_restores [OF p i, of 9000 9001 demo_acts 1000 1000 9000 9001, unfolded s]
  show ?thesis
    using p r by (simp add: demo_run_fields)
qed


section \<open>Displayed counts\<close>

lemma consistent_update [simp]: "consistent (updateMetricsDisplay now s)"
  by (simp add: updateMetricsDisplay_eq consistent_def)

lemma consistent_frame:
  "consistent s \<Longrightarrow> testResults s' = testResults s \<Longrightarrow> metricsContainer s' = metricsContainer s
     \<Longrightarrow> consistent s'"
  by (simp add: consistent_def split: option.splits metrics_html.splits)

lemma logEvent_consistent: "consistent s \<Longrightarrow> consistent (state_of (logEvent k d now s))"
  by (simp add: logEvent_eq)

lemma logEvent_distinct:
  "distinct (map fst (testResults s)) \<Longrightarrow>
   distinct (map fst (testResults (state_of (logEvent k d now s))))"
  by (simp add: logEvent_eq record_event_distinct)

lemma step_consistent:
  assumes "consistent s" shows "consistent (step a s)"
proof (cases a)
  case (ClickDynamic t now)
  then show ?thesis using assms by (auto simp: dynamicButton_click_eq split: option.splits)
next
  case (ClickAria t now)
  then show ?thesis using assms by (auto simp: ariaButton_click_eq split: option.splits)
next
  case (KeydownAria key t now)
  have "consistent (step (ClickAria t now) s)"
    using assms by (auto simp: ariaButton_click_eq split: option.splits)
  then show ?thesis
    unfolding KeydownAria using assms
    by (cases "key = ''Enter'' \<or> key = '' ''") (simp_all only: keydown_step if_True if_False)
next
  case (RunStressTest t now)
  then show ?thesis using assms by (auto simp: performStressTest_eq split: option.splits)
next
  case (ClickStress i j t now)
  then show ?thesis using assms
    by (auto simp: stressButton_click_def node_click_def logEvent_consistent
        split: option.splits listener.splits)
next
  case (LogEvent k d now)
  then show ?thesis using assms by (simp add: logEvent_consistent)
next
  case (Export t1 t2 t3)
  then show ?thesis by (auto intro!: consistent_frame [OF assms] simp: exportTestResults_def)
next
  case (Reset t now)
  have "consistent (resetTests t now s)"
    by (rule consistent_frame [OF consistent_update]) (simp_all add: resetTests_eq)
  then show ?thesis by (simp add: Reset)
next
  case (FireTimer k)
  then show ?thesis
    by (auto intro!: consistent_frame [OF assms] simp: fire_timer_def fire_def split: callback.splits)
qed

lemma step_distinct:
  assumes "distinct (map fst (testResults s))"
  shows "distinct (map fst (testResults (step a s)))"
proof (cases a)
  case (KeydownAria key t now)
  have "distinct (map fst (testResults (step (ClickAria t now) s)))"
    using assms by (auto simp: ariaButton_click_eq record_event_distinct split: option.splits)
  then show ?thesis
    unfolding KeydownAria using assms
    by (cases "key = ''Enter'' \<or> key = '' ''") (simp_all only: keydown_step if_True if_False)
next
  case (ClickStress i j t now)
  then show ?thesis using assms
    by (auto simp: stressButton_click_def node_click_def logEvent_distinct
        split: option.splits listener.splits)
next
  case (FireTimer k)
  then show ?thesis using assms by (auto simp: fire_timer_def fire_def split: callback.splits)
qed (use assms in \<open>auto simp: dynamicButton_click_eq ariaButton_click_eq performStressTest_eq
      exportTestResults_def resetTests_eq logEvent_distinct record_event_distinct split: option.splits\<close>)

lemma step_metrics:
  "(metricsContainer (step a s) = None) = (metricsContainer s = None)"
proof (cases a)
  case (KeydownAria key t now)
  have "(metricsContainer (step (ClickAria t now) s) = None) = (metricsContainer s = None)"
    by (auto simp: ariaButton_click_eq split: option.splits)
  then show ?thesis
    unfolding KeydownAria
    by (cases "key = ''Enter'' \<or> key = '' ''") (simp_all only: keydown_step if_True if_False)
next
  case (ClickStress i j t now)
  then show ?thesis
    by (auto simp: stressButton_click_def node_click_def split: option.splits listener.splits)
next
  case (FireTimer k)
  then show ?thesis by (auto simp: fire_timer_def fire_def split: callback.splits)
qed (auto simp: dynamicButton_click_eq ariaButton_click_eq performStressTest_eq
      exportTestResults_def resetTests_eq split: option.splits)

lemma run_invariants:
  "consistent s \<Longrightarrow> distinct (map fst (testResults s)) \<Longrightarrow>
   consistent (run acts s) \<and> distinct (map fst (testResults (run acts s))) \<and>
   (metricsContainer (run acts s) = None) = (metricsContainer s = None)"
  by (induction acts arbitrary: s) (auto simp: step_consistent step_distinct step_metrics)

lemma events_of_Cons:
  "events_of ((k, v) # tr) k' = (if k' = k then v else events_of tr k')"
  by (simp add: events_of_def)

lemma recorded_total_by_key:
  "distinct (map fst tr) \<Longrightarrow>
   recorded_total tr = (\<Sum>k \<in> fst ` set tr. length (events_of tr k))"
proof (induction tr)
  case Nil
  then show ?case by (simp add: recorded_total_def)
next
  case (Cons kv tr)
  obtain k v where kv: "kv = (k, v)" by (cases kv)
  from Cons.prems have fresh: "k \<notin> fst ` set tr" and d: "distinct (map fst tr)"
    by (auto simp: kv)
  have "(\<Sum>k' \<in> fst ` set tr. length (events_of ((k, v) # tr) k')) =
        (\<Sum>k' \<in> fst ` set tr. length (events_of tr k'))"
    using fresh by (intro sum.cong) (auto simp: events_of_Cons)
  then show ?case
    using fresh Cons.IH [OF d] by (simp add: kv recorded_total_def events_of_Cons)
qed

text \<open>
  C2: after any run from page load (direct \<^verbatim>\<open>logEvent\<close> calls and handler-triggered
  records in any interleaving, calls that throw included), with the metrics container
  present, the total shown is the sum of the lengths of the sequences stored under all
  keys of the log and the number of event types shown is the number of keys.
\<close>

theorem displayed_counts_match_log:
  assumes "page_hasMetrics p" and "s = run acts (constructor p t0 now0)"
  shows "displayed_total s = Some (recorded_total (testResults s)) \<and>
         displayed_total s = Some (\<Sum>k \<in> fst ` set (testResults s). length (events_of (testResults s) k)) \<and>
         displayed_types s = Some (card (fst ` set (testResults s)))"
proof -
  have "consistent (constructor p t0 now0)"
    by (simp add: constructor_def)
  moreover have "distinct (map fst (testResults (constructor p t0 now0)))"
    by (simp add: constructor_fields)
  ultimately have inv: "consistent s" "distinct (map fst (testResults s))"
    "(metricsContainer s = None) = (metricsContainer (constructor p t0 now0) = None)"
    using run_invariants [of "constructor p t0 now0" acts] by (simp_all add: assms(2))
  from inv(3) assms(1) have "metricsContainer s \<noteq> None"
    by (simp add: constructor_fields)
  with inv(1) have shown: "displayed_total s = Some (recorded_total (testResults s))"
    "displayed_types s = Some (length (testResults s))"
    by (auto simp: consistent_def displayed_total_def displayed_types_def
        split: option.splits metrics_html.splits)
  have "card (fst ` set (testResults s)) = length (testResults s)"
    using distinct_card [OF inv(2)] by simp
  then show ?thesis
    using shown recorded_total_by_key [OF inv(2)] by simp
qed

theorem displayed_counts_match_log_witness:
  "page_hasMetrics demo_page \<and>
   recorded_total (testResults demo_run) = 3 \<and>
   displayed_total demo_run = Some 3 \<and>
   displayed_types demo_run = Some 2"
proof -
  have m: "page_hasMetrics demo_page"
    by (simp add: demo_page_def)
  have s: "demo_run = run demo_acts (constructor demo_page 1000 1000)"
    by (simp only: demo_run_def demo_state_def)
  have total: "recorded_total (testResults demo_run) = 3"
    by (simp add: demo_run_log recorded_total_def)
  have "displayed_total demo_run = Some 3 \<and> displayed_types demo_run = Some 2"
    using displayed_counts_match_log [OF m s] by (simp add: demo_run_log recorded_total_def)
  then show ?thesis
    using m total by simp
qed


section \<open>ARIA button\<close>

text \<open>
  C6: on the ARIA button a keydown of Enter or Space has the outcome of a click made
  with the same clock readings: the same state, and the same record appended under
  \<^verbatim>\<open>aria-button-click\<close>, with the role, the tag name and the timestamp.
\<close>

theorem keyboard_activation_equals_click:
  assumes "key = ''Enter'' \<or> key = '' ''" and "ariaButton s = Some a"
  shows "snd (ariaButton_keydown key t now s) = ariaButton_click t now s \<and>
         ariaButton_click t now s = Returned (state_of (ariaButton_click t now s)) \<and>
         events_of (testResults (state_of (snd (ariaButton_keydown key t now s)))) ''aria-button-click'' =
           events_of (testResults s) ''aria-button-click'' @
             [[(''role'', Str (role a)), (''tagName'', Str (aria_tagName a)), (''timestamp'', Num t)]] \<and>
         events_of (testResults (state_of (ariaButton_click t now s))) ''aria-button-click'' =
           events_of (testResults s) ''aria-button-click'' @
             [[(''role'', Str (role a)), (''tagName'', Str (aria_tagName a)), (''timestamp'', Num t)]]"
proof -
  have same: "snd (ariaButton_keydown key t now s) = ariaButton_click t now s"
    using assms(1) by (simp only: ariaButton_keydown_def assms(2) option.case if_True snd_conv)
  have click: "events_of (testResults (state_of (ariaButton_click t now s))) ''aria-button-click'' =
           events_of (testResults s) ''aria-button-click'' @
             [[(''role'', Str (role a)), (''tagName'', Str (aria_tagName a)), (''timestamp'', Num t)]]"
    and returned: "ariaButton_click t now s = Returned (state_of (ariaButton_click t now s))"
    by (simp_all add: ariaButton_click_eq assms(2) record_event_events)
  show ?thesis
    using click returned by (simp only: same simp_thms)
qed

theorem keyboard_activation_equals_click_witness:
  "ariaButton demo_state = Some \<lparr>role = ''button'', aria_tagName = ''DIV'',
              textContent = target_emoji @ '' ARIA Role Button''\<rparr> \<and>
   snd (ariaButton_keydown '' '' 3000 3001 demo_state) = ariaButton_click 3000 3001 demo_state \<and>
   events_of (testResults (state_of (snd (ariaButton_keydown '' '' 3000 3001 demo_state)))) ''aria-button-click'' =
     [[(''role'', Str ''button''), (''tagName'', Str ''DIV''), (''timestamp'', Num 3000)]]"
proof -
  have a: "ariaButton demo_state = Some \<lparr>role = ''button'', aria_tagName = ''DIV'',
              textContent = target_emoji @ '' ARIA Role Button''\<rparr>"
    and e: "events_of (testResults demo_state) ''aria-button-click'' = []"
    by (simp_all add: demo_state_def constructor_def demo_page_def events_of_def)
  have k: "'' '' = ''Enter'' \<or> '' '' = '' ''"
    by simp
  show ?thesis
    using keyboard_activation_equals_click [OF k a, of 3000 3001] a
    by (simp add: e)
qed


section \<open>Stress-test generation\<close>

lemma subsection_loop_eq:
  "j \<le> 3 \<Longrightarrow>
   subsection_loop i j (Node tag cls txt h kids) =
     Node tag cls txt h (kids @ map (stress_subsection i) [j..<3])"
proof (induction i j "Node tag cls txt h kids" arbitrary: kids rule: subsection_loop.induct)
  case (1 i j)
  show ?case
  proof (cases "j < 3")
    case True
    then have "[j..<3] = j # [j + 1..<3]"
      by (simp add: upt_conv_Cons)
    then show ?thesis
      using True "1.hyps" [OF True, of "kids @ [stress_subsection i j]"]
      by (subst subsection_loop.simps) simp
  next
    case False
    with "1.prems" have "j = 3" by simp
    then show ?thesis by (subst subsection_loop.simps) simp
  qed
qed

lemma section_loop_eq:
  "i \<le> 5 \<Longrightarrow>
   section_loop i kids =
     kids @ map (\<lambda>i. Node ''DIV'' (''stress-section-'' @ string_of_nat i) [] None
                   (map (stress_subsection i) [0..<3])) [i..<5]"
proof (induction i kids rule: section_loop.induct)
  case (1 i kids)
  show ?case
  proof (cases "i < 5")
    case True
    then have "[i..<5] = i # [i + 1..<5]"
      by (simp add: upt_conv_Cons)
    then show ?thesis
      using True "1.IH" [OF True] subsection_loop_eq [of 0 i _ _ _ _ "[]"]
      by (subst section_loop.simps) simp
  next
    case False
    with "1.prems" have "i = 5" by simp
    then show ?thesis by (subst section_loop.simps) simp
  qed
qed

lemma stress_subsection_eq:
  "stress_subsection i j =
     Node ''DIV'' (''stress-subsection-'' @ string_of_nat j) [] None [stress_button i j]"
  by (simp add: stress_subsection_def)

lemma section_loop_tree: "section_loop 0 [] = stress_tree"
  using section_loop_eq [of 0 "[]"]
  by (simp only: stress_tree_def stress_subsection_eq [abs_def] append_Nil le0)

lemma count_stress_tree: "sum_list (map count_buttons stress_tree) = 15"
  by (simp add: stress_tree_def stress_button_def comp_def sum_list_triv)

lemma stress_button_at_tree:
  "i < 5 \<Longrightarrow> j < 3 \<Longrightarrow> stress_button_at stress_tree i j = Some (stress_button i j)"
  by (simp add: stress_button_at_def child_def stress_tree_def)

lemma node_click_button:
  "node_click (stress_button i j) t now u =
     logEvent ''stress-test-click''
       [(''sectionIndex'', Num (int i)), (''subsectionIndex'', Num (int j)), (''timestamp'', Num t)]
       now u"
  by (simp add: node_click_def stress_button_def)

text \<open>
  C5: with the container present, \<^verbatim>\<open>performStressTest\<close> returns, and whatever the
  container held before it then holds 5 sections of 3 subsections of 1 button, 15 buttons
  in all; the button of section \<open>i\<close>, subsection \<open>j\<close> is wired so that a click on it
  records a \<^verbatim>\<open>stress-test-click\<close> event with exactly the indices \<open>i\<close> and \<open>j\<close>; and exactly
  one record, with \<^verbatim>\<open>elementsCreated\<close> 15, has been appended under
  \<^verbatim>\<open>stress-test-performed\<close>, the sequences under all other keys being as before.
\<close>

theorem stress_test_generates:
  assumes "stressContainer s = Some old"
  shows "performStressTest t now s = Returned (state_of (performStressTest t now s)) \<and>
         stressContainer (state_of (performStressTest t now s)) = Some stress_tree \<and>
         sum_list (map count_buttons stress_tree) = 15 \<and>
         (\<forall>i < 5. \<forall>j < 3.
            stress_button_at stress_tree i j = Some (stress_button i j) \<and>
            (\<forall>t' now' u. stressContainer u = Some stress_tree \<longrightarrow>
               stressButton_click i j t' now' u =
                 logEvent ''stress-test-click''
                   [(''sectionIndex'', Num (int i)), (''subsectionIndex'', Num (int j)),
                    (''timestamp'', Num t')] now' u \<and>
               events_of (testResults (state_of (stressButton_click i j t' now' u)))
                   ''stress-test-click'' =
                 events_of (testResults u) ''stress-test-click'' @
                   [[(''sectionIndex'', Num (int i)), (''subsectionIndex'', Num (int j)),
                     (''timestamp'', Num t')]])) \<and>
         events_of (testResults (state_of (performStressTest t now s))) ''stress-test-performed'' =
           events_of (testResults s) ''stress-test-performed'' @
             [[(''timestamp'', Num t), (''elementsCreated'', Num 15)]] \<and>
         (\<forall>k. k \<noteq> ''stress-test-performed'' \<longrightarrow>
            events_of (testResults (state_of (performStressTest t now s))) k =
              events_of (testResults s) k)"
proof -
  have run: "performStressTest t now s =
      Returned (updateMetricsDisplay now (s\<lparr>
        stressContainer := Some stress_tree,
        testResults := record_event ''stress-test-performed''
          [(''timestamp'', Num t), (''elementsCreated'', Num 15)] (testResults s)\<rparr>))"
    by (simp add: performStressTest_eq assms section_loop_tree)
  have click: "stressButton_click i j t' now' u =
        logEvent ''stress-test-click''
          [(''sectionIndex'', Num (int i)), (''subsectionIndex'', Num (int j)),
           (''timestamp'', Num t')] now' u"
    if "i < 5" "j < 3" "stressContainer u = Some stress_tree" for i j t' now' u
    using that by (simp add: stressButton_click_def stress_button_at_tree node_click_button)
  have logged: "events_of (testResults (state_of (logEvent ''stress-test-click'' d now' u)))
        ''stress-test-click'' = events_of (testResults u) ''stress-test-click'' @ [d]" for d now' u
    by (simp add: logEvent_eq record_event_events)
  show ?thesis
    by (simp add: run count_stress_tree stress_button_at_tree click logged record_event_events)
qed

theorem stress_test_generates_witness:
  "stressContainer (demo_state\<lparr>stressContainer := Some [createElement ''P'']\<rparr>) =
     Some [createElement ''P''] \<and>
   stressContainer (state_of (performStressTest 7000 7001
       (demo_state\<lparr>stressContainer := Some [createElement ''P'']\<rparr>))) = Some stress_tree \<and>
   sum_list (map count_buttons stress_tree) = 15 \<and>
   stress_button_at stress_tree 4 2 = Some (stress_button 4 2) \<and>
   events_of (testResults (state_of (performStressTest 7000 7001
       (demo_state\<lparr>stressContainer := Some [createElement ''P'']\<rparr>)))) ''stress-test-performed'' =
     [[(''timestamp'', Num 7000), (''elementsCreated'', Num 15)]] \<and>
   events_of (testResults (state_of (stressButton_click 4 2 8000 8001
       (state_of (performStressTest 7000 7001
          (demo_state\<lparr>stressContainer := Some [createElement ''P'']\<rparr>)))))) ''stress-test-click'' =
     [[(''sectionIndex'', Num 4), (''subsectionIndex'', Num 2), (''timestamp'', Num 8000)]]"
proof -
  define s0 where "s0 = demo_state\<lparr>stressContainer := Some [createElement ''P'']\<rparr>"
  define s1 where "s1 = state_of (performStressTest 7000 7001 s0)"
  have old: "stressContainer s0 = Some [createElement ''P'']"
    by (simp add: s0_def)
  have empty: "events_of (testResults s0) k = []" for k
    by (simp add: s0_def demo_state_def constructor_def events_of_def)
  note gen = stress_test_generates [OF old, of 7000 7001]
  have tree: "stressContainer s1 = Some stress_tree"
    unfolding s1_def by (rule gen [THEN conjunct2, THEN conjunct1])
  have count: "sum_list (map count_buttons stress_tree) = 15"
    by (rule gen [THEN conjunct2, THEN conjunct2, THEN conjunct1])
  note buttons = gen [THEN conjunct2, THEN conjunct2, THEN conjunct2, THEN conjunct1, rule_format]
  have four: "(4::nat) < 5" and two: "(2::nat) < 3"
    by simp_all
  have at: "stress_button_at stress_tree 4 2 = Some (stress_button 4 2)"
    by (rule buttons [OF four two, THEN conjunct1])
  have clicked: "events_of (testResults (state_of (stressButton_click 4 2 8000 8001 s1)))
        ''stress-test-click'' =
      events_of (testResults s1) ''stress-test-click'' @
        [[(''sectionIndex'', Num (int 4)), (''subsectionIndex'', Num (int 2)),
          (''timestamp'', Num 8000)]]"
    by (rule buttons [OF four two, THEN conjunct2, rule_format, OF tree, THEN conjunct2])
  have performed: "events_of (testResults s1) ''stress-test-performed'' =
      events_of (testResults s0) ''stress-test-performed'' @
        [[(''timestamp'', Num 7000), (''elementsCreated'', Num 15)]]"
    unfolding s1_def
    by (rule gen [THEN conjunct2, THEN conjunct2, THEN conjunct2, THEN conjunct2, THEN conjunct1])
  have "events_of (testResults s1) ''stress-test-click'' =
      events_of (testResults s0) ''stress-test-click''"
    unfolding s1_def
    by (rule gen [THEN conjunct2, THEN conjunct2, THEN conjunct2, THEN conjunct2, THEN conjunct2,
          rule_format]) simp
  then have clicked': "events_of (testResults (state_of (stressButton_click 4 2 8000 8001 s1)))
        ''stress-test-click'' =
      [[(''sectionIndex'', Num 4), (''subsectionIndex'', Num 2), (''timestamp'', Num 8000)]]"
    using clicked by (simp add: empty)
  have performed': "events_of (testResults s1) ''stress-test-performed'' =
      [[(''timestamp'', Num 7000), (''elementsCreated'', Num 15)]]"
    using performed by (simp add: empty)
  show ?thesis
    using old tree count at performed' clicked' unfolding s1_def s0_def
    by (intro conjI)
qed


section \<open>Nested elements\<close>

lemma nestingLevel_chain:
  "chain_to_body d bdy a ps \<Longrightarrow>
   nestingLevel_loop d bdy (parentElement d a) n = Some (n + length ps)"
proof (induction ps arbitrary: a n)
  case Nil
  then show ?case by (subst nestingLevel_loop.simps) simp
next
  case (Cons p ps)
  from Cons.prems have p: "parentElement d a = Some p" "p \<noteq> bdy" "chain_to_body d bdy p ps"
    by simp_all
  show ?case
    by (subst nestingLevel_loop.simps) (simp add: p Cons.IH [OF p(3)])
qed

lemma cssPath_chain:
  "chain_to_body d bdy a ps \<Longrightarrow> a \<noteq> bdy \<Longrightarrow>
   cssPath_loop d bdy (Some a) path =
     Some (map (\<lambda>x. selector (d ! x)) (rev ps) @ selector (d ! a) # path)"
proof (induction ps arbitrary: a path)
  case Nil
  then have "cssPath_loop d bdy (Some a) path = cssPath_loop d bdy (Some bdy) (selector (d ! a) # path)"
    by (subst cssPath_loop.simps) simp
  also have "\<dots> = Some (selector (d ! a) # path)"
    by (subst cssPath_loop.simps) simp
  finally show ?case by simp
next
  case (Cons p ps)
  from Cons.prems have p: "parentElement d a = Some p" "p \<noteq> bdy" "chain_to_body d bdy p ps"
    by simp_all
  have "cssPath_loop d bdy (Some a) path = cssPath_loop d bdy (Some p) (selector (d ! a) # path)"
    using Cons.prems(2) by (subst cssPath_loop.simps) (simp add: p)
  then show ?case
    by (simp add: Cons.IH [OF p(3) p(2)])
qed

lemma selector_claimed:
  "elem_id e \<noteq> [] \<or> className e = [] \<or> classList (className e) \<noteq> [] \<Longrightarrow>
   selector e = claimed_segment e"
  by (auto simp: selector_def claimed_segment_def classList_def)

text \<open>
  For an element below the body whose proper ancestors below the body are \<open>ps\<close> (nearest
  first) both walks end: the nesting level is the number of these ancestors, the path is
  the segments of the ancestors, outermost first, and of the element, joined by
  \<^verbatim>\<open> > \<close> (the body itself gives no segment), and a click records both under
  \<^verbatim>\<open>nested-element-click\<close>. The segment computed by the script is the one the
  specification words whenever the element has an id, no class attribute, or a class
  attribute with a class in it (\<open>selector_claimed\<close>).
\<close>

theorem nested_click_records:
  assumes "index < length (nestedElements s)" and "nestedElements s ! index = a"
    and "a < length (elements s)" and "a \<noteq> body s"
    and "chain_to_body (elements s) (body s) a ps"
  shows "calculateNestingLevel (elements s) (body s) a = Some (length ps) \<and>
         generateCssPath (elements s) (body s) a =
           Some (join '' > '' (map (\<lambda>x. selector (elements s ! x)) (rev ps @ [a]))) \<and>
         (\<exists>s'. nestedElement_click index t now s = Some (Returned s') \<and>
           events_of (testResults s') ''nested-element-click'' =
             events_of (testResults s) ''nested-element-click'' @
               [[(''elementIndex'', Num (int index)), (''nestingLevel'', Num (int (length ps))),
                 (''cssPath'', Str (join '' > '' (map (\<lambda>x. selector (elements s ! x)) (rev ps @ [a])))),
                 (''timestamp'', Num t)]])"
proof -
  have level: "calculateNestingLevel (elements s) (body s) a = Some (length ps)"
    using nestingLevel_chain [OF assms(5), of 0] by (simp add: calculateNestingLevel_def)
  have path: "generateCssPath (elements s) (body s) a =
      Some (join '' > '' (map (\<lambda>x. selector (elements s ! x)) (rev ps @ [a])))"
    using cssPath_chain [OF assms(5) assms(4), of "[]"] by (simp add: generateCssPath_def)
  show ?thesis
    using assms(1,2,3)
    by (simp add: level path nestedElement_click_def logEvent_eq record_event_events
        createRippleEffect_def Let_def)
qed

lemma demo_fields:
  "elements demo_state = demo_dom" "body demo_state = 1" "nestedElements demo_state = [4, 5]"
  "testResults demo_state = []"
  by (simp_all add: demo_state_def constructor_def demo_page_def)

lemma demo_tags: "toLowerCase ''DIV'' = ''div''" "toLowerCase ''SPAN'' = ''span''"
  by code_simp+

lemma demo_selectors:
  "selector (demo_dom ! 2) = ''div.deeply-nested''"
  "selector (demo_dom ! 3) = ''div#level-2''"
  "selector (demo_dom ! 4) = ''span.leaf.hot''"
  "selector (demo_dom ! 5) = ''span.''"
  by (simp_all add: demo_dom_def selector_def demo_tags classList_def is_ascii_whitespace_def)

lemma demo_parents:
  "parentElement demo_dom 5 = Some 2" "parentElement demo_dom 4 = Some 3"
  "parentElement demo_dom 3 = Some 2" "parentElement demo_dom 2 = Some 1"
  by (simp_all add: parentElement_def demo_dom_def)

theorem nested_click_records_witness:
  "chain_to_body (elements demo_state) (body demo_state) 4 [3, 2] \<and>
   calculateNestingLevel (elements demo_state) (body demo_state) 4 = Some 2 \<and>
   generateCssPath (elements demo_state) (body demo_state) 4 =
     Some ''div.deeply-nested > div#level-2 > span.leaf.hot''"
proof -
  have c: "chain_to_body (elements demo_state) (body demo_state) 4 [3, 2]"
    by (simp add: demo_fields demo_parents)
  have i: "0 < length (nestedElements demo_state)" "nestedElements demo_state ! 0 = 4"
    "4 < length (elements demo_state)" "4 \<noteq> body demo_state"
    by (simp_all add: demo_fields demo_dom_def)
  show ?thesis
    using nested_click_records [OF i c, of 0 0] c
    by (simp add: demo_fields demo_selectors)
qed

text \<open>
  Claim C8 gives the segment of an element without id and without classes as the tag
  name alone. The script tests the class attribute string, not the class list: at the
  second nested element of the sample page, a \<^verbatim>\<open>span\<close> with the class attribute
  \<^verbatim>\<open>" "\<close> below \<^verbatim>\<open>div.deeply-nested\<close>, the class list is empty, the claim gives the
  path \<^verbatim>\<open>div.deeply-nested > span\<close>, and the click records
  \<^verbatim>\<open>div.deeply-nested > span.\<close>, with a bare dot after the tag name.
\<close>

theorem blank_class_segment:
  "chain_to_body (elements demo_state) (body demo_state) 5 [2] \<and>
   classList (className (elements demo_state ! 5)) = [] \<and>
   generateCssPath (elements demo_state) (body demo_state) 5 = Some ''div.deeply-nested > span.'' \<and>
   join '' > '' (map (\<lambda>x. claimed_segment (elements demo_state ! x)) [2, 5]) =
     ''div.deeply-nested > span'' \<and>
   map_option (\<lambda>r. events_of (testResults (state_of r)) ''nested-element-click'')
       (nestedElement_click 1 6000 6001 demo_state) =
     Some [[(''elementIndex'', Num 1), (''nestingLevel'', Num 1),
            (''cssPath'', Str ''div.deeply-nested > span.''), (''timestamp'', Num 6000)]]"
proof -
  have c: "chain_to_body (elements demo_state) (body demo_state) 5 [2]"
    by (simp add: demo_fields demo_parents)
  have i: "1 < length (nestedElements demo_state)" "nestedElements demo_state ! 1 = 5"
    "5 < length (elements demo_state)" "5 \<noteq> body demo_state"
    by (simp_all add: demo_fields demo_dom_def)
  have sel: "join '' > '' (map (\<lambda>x. selector (elements demo_state ! x)) (rev [2] @ [5])) =
      ''div.deeply-nested > span.''"
    by (simp add: demo_fields demo_selectors)
  have claimed: "join '' > '' (map (\<lambda>x. claimed_segment (elements demo_state ! x)) [2, 5]) =
     ''div.deeply-nested > span''"
    by (simp add: demo_fields demo_dom_def claimed_segment_def demo_tags classList_def
        is_ascii_whitespace_def)
  have blank: "classList (className (elements demo_state ! 5)) = []"
    by (simp add: demo_fields demo_dom_def classList_def is_ascii_whitespace_def)
  have e: "events_of (testResults demo_state) ''nested-element-click'' = []"
    by (simp add: demo_fields events_of_def)
  from nested_click_records [OF i c, of 6000 6001]
  have "generateCssPath (elements demo_state) (body demo_state) 5 = Some ''div.deeply-nested > span.''"
    and "map_option (\<lambda>r. events_of (testResults (state_of r)) ''nested-element-click'')
       (nestedElement_click 1 6000 6001 demo_state) =
     Some [[(''elementIndex'', Num 1), (''nestingLevel'', Num 1),
            (''cssPath'', Str ''div.deeply-nested > span.''), (''timestamp'', Num 6000)]]"
    unfolding sel e by auto
  then show ?thesis
    using c claimed blank by blast
qed

end
